theory Spec2Isabelle
  imports Complex_Main "HOL-Library.Word"
begin

unbundle bit_operations_syntax

section \<open>morph::VisualOwnable: the scene state and its event handlers\<close>

text \<open>
  A shallow embedding of \<^verbatim>\<open>src/morph/VisualOwnable.h\<close>. The class becomes the record
  \<open>visual\<close>; every member function that is modelled takes the object and returns the
  updated object (explicit state passing). Conventions:

  \<^item> \<^verbatim>\<open>float\<close> and \<^verbatim>\<open>double\<close> are modelled as \<open>real\<close>: arithmetic is exact and there
    is no NaN or infinity. The statements about numeric values say why that is harmless
    for them.
  \<^item> \<^verbatim>\<open>int\<close> arguments of the callbacks (key, action, mods, button) are \<open>int\<close>; the mask
    tests \<^verbatim>\<open>mods & keymod::control\<close> are bitwise \<open>AND\<close> on \<open>int\<close> (two's complement).
  \<^item> \<^verbatim>\<open>unsigned int\<close> indices and \<^verbatim>\<open>size()\<close> are \<open>nat\<close>.
  \<^item> Undefined behaviour (an out-of-range \<^verbatim>\<open>std::vector::operator[]\<close> or \<^verbatim>\<open>erase\<close>) and
    thrown exceptions are values of the types \<open>error\<close> and \<open>json_exception\<close>; a function
    that can reach one returns a sum with the error on the left.
  \<^item> Writes to \<^verbatim>\<open>std::cout\<close>, \<^verbatim>\<open>std::cerr\<close> and to files are appended to the field \<open>io_log\<close>.
\<close>

subsection \<open>Vectors, quaternions, matrices\<close>

text \<open>\<^verbatim>\<open>morph::vec<float, N>\<close> for N = 2, 3, 4 and \<^verbatim>\<open>morph::quaternion<float>\<close>.\<close>

record vec2 =
  v2x :: real
  v2y :: real

record vec3 =
  v3x :: real
  v3y :: real
  v3z :: real

record vec4 =
  v4x :: real
  v4y :: real
  v4z :: real
  v4w :: real

record quaternion =
  qw :: real
  qx :: real
  qy :: real
  qz :: real

text \<open>\<^verbatim>\<open>morph::mat44<float>\<close>: the 16 entries of the member array \<^verbatim>\<open>mat\<close>, column-major.\<close>

type_synonym mat44 = "real list"

text \<open>
  Modelled from the spec: \<^verbatim>\<open>morph/vec.h\<close> is not under src/. The spec reads the guard of the
  orthographic zoom as \<open>ortho_lb < 0 < ortho_rt\<close> componentwise, so the comparison of a
  vec with a scalar holds when it holds for every element.
\<close>

definition vec2_lt_scalar :: "vec2 \<Rightarrow> real \<Rightarrow> bool" where
  "vec2_lt_scalar v r = (v2x v < r \<and> v2y v < r)"

definition vec2_gt_scalar :: "vec2 \<Rightarrow> real \<Rightarrow> bool" where
  "vec2_gt_scalar v r = (v2x v > r \<and> v2y v > r)"

text \<open>
  Modelled from the spec: the arithmetic of \<^verbatim>\<open>morph/vec.h\<close> (not under src/) between a vec
  and a scalar (\<^verbatim>\<open>operator+\<close>, \<^verbatim>\<open>-\<close>, \<^verbatim>\<open>*\<close>, \<^verbatim>\<open>-=\<close>, \<^verbatim>\<open>/=\<close>) and between two vecs
  (\<^verbatim>\<open>+=\<close>) acts on every element, as the spec's rescaling of the bounds and its world-space
  deltas do.
\<close>

definition vec2_add_scalar :: "vec2 \<Rightarrow> real \<Rightarrow> vec2" where
  "vec2_add_scalar v r = \<lparr>v2x = v2x v + r, v2y = v2y v + r\<rparr>"

definition vec2_sub_scalar :: "vec2 \<Rightarrow> real \<Rightarrow> vec2" where
  "vec2_sub_scalar v r = \<lparr>v2x = v2x v - r, v2y = v2y v - r\<rparr>"

definition vec2_div_scalar :: "vec2 \<Rightarrow> real \<Rightarrow> vec2" where
  "vec2_div_scalar v r = \<lparr>v2x = v2x v / r, v2y = v2y v / r\<rparr>"

definition vec3_mul_scalar :: "vec3 \<Rightarrow> real \<Rightarrow> vec3" where
  "vec3_mul_scalar v r = \<lparr>v3x = v3x v * r, v3y = v3y v * r, v3z = v3z v * r\<rparr>"

definition vec4_add :: "vec4 \<Rightarrow> vec4 \<Rightarrow> vec4" where
  "vec4_add a b = \<lparr>v4x = v4x a + v4x b, v4y = v4y a + v4y b, v4z = v4z a + v4z b, v4w = v4w a + v4w b\<rparr>"

text \<open>\<^verbatim>\<open>vec<float,3>::set_from (vec<float,4>)\<close>: the first three elements.\<close>

definition vec3_set_from :: "vec4 \<Rightarrow> vec3" where
  "vec3_set_from v = \<lparr>v3x = v4x v, v3y = v4y v, v3z = v4z v\<rparr>"

text \<open>
  Modelled from the spec: \<^verbatim>\<open>morph/mat44.h\<close> is not under src/. The spec's unprojection
  multiplies a 4x4 matrix with a homogeneous point; \<open>mat44_mul_vec4\<close> is that product for
  the column-major array, and a default-constructed matrix is the identity.
\<close>

definition mat44_identity :: mat44 where
  "mat44_identity = [1, 0, 0, 0,  0, 1, 0, 0,  0, 0, 1, 0,  0, 0, 0, 1]"

definition mat44_mul_vec4 :: "mat44 \<Rightarrow> vec4 \<Rightarrow> vec4" where
  "mat44_mul_vec4 m v =
     \<lparr>v4x = m ! 0 * v4x v + m ! 4 * v4y v + m ! 8 * v4z v + m ! 12 * v4w v,
      v4y = m ! 1 * v4x v + m ! 5 * v4y v + m ! 9 * v4z v + m ! 13 * v4w v,
      v4z = m ! 2 * v4x v + m ! 6 * v4y v + m ! 10 * v4z v + m ! 14 * v4w v,
      v4w = m ! 3 * v4x v + m ! 7 * v4y v + m ! 11 * v4z v + m ! 15 * v4w v\<rparr>"

text \<open>
  The rest of the numeric library (\<^verbatim>\<open>quaternion.h\<close>, \<^verbatim>\<open>mat44.h\<close>, \<^verbatim>\<open>vec.h\<close>, none under
  src/) is a parameter of the handlers that call it: the record \<open>mathlib\<close> holds the
  operations, and every theorem about such a handler holds for every \<open>mathlib\<close>.
\<close>

record mathlib =
  mat44_rotate :: "mat44 \<Rightarrow> quaternion \<Rightarrow> mat44"
  mat44_invert :: "mat44 \<Rightarrow> mat44"
  mat44_mul_vec3 :: "mat44 \<Rightarrow> vec3 \<Rightarrow> vec4"
  vec3_length :: "vec3 \<Rightarrow> real"
  vec3_renormalize :: "vec3 \<Rightarrow> vec3"
  quaternion_axis_angle :: "vec3 \<Rightarrow> real \<Rightarrow> quaternion"
  quaternion_postmultiply :: "quaternion \<Rightarrow> quaternion \<Rightarrow> quaternion"
  deg2rad :: real

subsection \<open>The renderable registry\<close>

text \<open>
  An element of \<^verbatim>\<open>std::vector<std::unique_ptr<VisualModel>> vm\<close>: the address the
  unique_ptr holds (\<^verbatim>\<open>get()\<close>) and the two attributes of the pointee that the key
  handler changes. The registry is taken to hold no null pointer.
\<close>

record visual_model =
  vm_addr :: nat
  vm_hide :: bool
  vm_alpha :: real

text \<open>
  Modelled from the spec: \<^verbatim>\<open>morph/VisualModel.h\<close> is not under src/. The spec gives each
  renderable a hidden flag that the key handler toggles and an alpha that it moves by a
  step and clamps to [0,1]; the step is taken to be one tenth.
\<close>

definition toggleHide :: "visual_model \<Rightarrow> visual_model" where
  "toggleHide m = m\<lparr>vm_hide := (if vm_hide m then False else True)\<rparr>"

definition decAlpha :: "visual_model \<Rightarrow> visual_model" where
  "decAlpha m = m\<lparr>vm_alpha := (if vm_alpha m - 1 / 10 < 0 then 0 else vm_alpha m - 1 / 10)\<rparr>"

definition incAlpha :: "visual_model \<Rightarrow> visual_model" where
  "incAlpha m = m\<lparr>vm_alpha := (if vm_alpha m + 1 / 10 > 1 then 1 else vm_alpha m + 1 / 10)\<rparr>"

datatype perspective_type = perspective | orthographic | cylindrical

datatype error =
  Vm_index_out_of_range nat nat
  | Gltf_open_failed

text \<open>What the handlers write to the standard streams and to files.\<close>

datatype io_event =
  Out_user_requested_exit
  | Call_external_quit_callback
  | Out_help bool
  | Out_scene_locked bool
  | Save_image string
  | Save_gltf string
  | Out_scenetrans_code vec3 quaternion
  | Write_visual_json vec3 quaternion
  | Out_json_write_failed
  | Out_selected nat
  | Out_cyl_radius real
  | Out_cyl_height real
  | Out_reset_view
  | Out_fov_reduced real
  | Out_fov_increased real
  | Out_znear_reduced real
  | Out_znear_increased real
  | Err_ignoring_close

subsection \<open>The class\<close>

text \<open>
  The data members that the modelled functions read or write, with the names of the
  source. \<open>quit_callback_set\<close> is whether \<^verbatim>\<open>external_quit_callback\<close> holds a target;
  \<open>gltf_file_opens\<close> and \<open>json_file_opens\<close> are the environment: whether the output
  files of Ctrl-m and Ctrl-z can be opened for writing.
\<close>

record visual =
  window_w :: int
  window_h :: int
  title :: string
  vm :: "visual_model list"
  selectedVisualModel :: nat
  cyl_cam_pos :: vec4
  cyl_cam_pos_default :: vec4
  cyl_radius :: real
  cyl_height :: real
  readyToFinish :: bool
  preventWindowCloseWithButton :: bool
  zNear :: real
  zFar :: real
  fov :: real
  showCoordArrows :: bool
  user_info_stdout :: bool
  scenetrans_stepsize :: real
  sceneLocked :: bool
  ptype :: perspective_type
  ortho_lb :: vec2
  ortho_rt :: vec2
  cursorpos :: vec2
  scenetrans :: vec3
  scenetrans_default :: vec3
  rotateMode :: bool
  rotateModMode :: bool
  translateMode :: bool
  mousePressPosition :: vec2
  rotationAxis :: vec3
  rotation :: quaternion
  rotation_default :: quaternion
  savedRotation :: quaternion
  projection :: mat44
  invproj :: mat44
  scene :: mat44
  invscene :: mat44
  quit_callback_set :: bool
  gltf_file_opens :: bool
  json_file_opens :: bool
  io_log :: "io_event list"

text \<open>The default member initialisers (a default-constructed quaternion is the identity rotation).\<close>

definition quaternion_default :: quaternion where
  "quaternion_default = \<lparr>qw = 1, qx = 0, qy = 0, qz = 0\<rparr>"

definition zDefault :: real where
  "zDefault = - 5"

definition visual_default :: visual where
  "visual_default =
     \<lparr>window_w = 640, window_h = 480, title = ''morph::Visual'',
      vm = [], selectedVisualModel = 0,
      cyl_cam_pos = \<lparr>v4x = 0, v4y = 0, v4z = 0, v4w = 1\<rparr>,
      cyl_cam_pos_default = \<lparr>v4x = 0, v4y = 0, v4z = 0, v4w = 1\<rparr>,
      cyl_radius = 5 / 1000, cyl_height = 1 / 100,
      readyToFinish = False, preventWindowCloseWithButton = False,
      zNear = 1 / 1000, zFar = 300, fov = 30,
      showCoordArrows = False, user_info_stdout = True,
      scenetrans_stepsize = 1 / 10, sceneLocked = False, ptype = perspective,
      ortho_lb = \<lparr>v2x = - 13 / 10, v2y = - 1\<rparr>,
      ortho_rt = \<lparr>v2x = 13 / 10, v2y = 1\<rparr>,
      cursorpos = \<lparr>v2x = 0, v2y = 0\<rparr>,
      scenetrans = \<lparr>v3x = 0, v3y = 0, v3z = zDefault\<rparr>,
      scenetrans_default = \<lparr>v3x = 0, v3y = 0, v3z = zDefault\<rparr>,
      rotateMode = False, rotateModMode = False, translateMode = False,
      mousePressPosition = \<lparr>v2x = 0, v2y = 0\<rparr>,
      rotationAxis = \<lparr>v3x = 0, v3y = 0, v3z = 0\<rparr>,
      rotation = quaternion_default, rotation_default = quaternion_default,
      savedRotation = quaternion_default,
      projection = mat44_identity, invproj = mat44_identity,
      scene = mat44_identity, invscene = mat44_identity,
      quit_callback_set = False, gltf_file_opens = True, json_file_opens = True,
      io_log = []\<rparr>"

subsection \<open>Registry operations\<close>


text \<open>\<^verbatim>\<open>addVisualModel\<close>: push the model, return the non-owning pointer.\<close>

definition addVisualModel :: "visual \<Rightarrow> visual_model \<Rightarrow> visual \<times> nat" where
  "addVisualModel s model =
     (let s' = s\<lparr>vm := vm s @ [model]\<rparr> in (s', vm_addr (last (vm s'))))"

text \<open>\<^verbatim>\<open>vm.erase (vm.begin() + modelId)\<close> for an index in range.\<close>

definition erase_at :: "'a list \<Rightarrow> nat \<Rightarrow> 'a list" where
  "erase_at xs i = take i xs @ drop (Suc i) xs"

text \<open>
  \<^verbatim>\<open>removeVisualModel (unsigned int modelId)\<close>: the source does not check the index, and
  erasing at or past \<^verbatim>\<open>end()\<close> is undefined.
\<close>

definition removeVisualModel_id :: "visual \<Rightarrow> nat \<Rightarrow> error + visual" where
  "removeVisualModel_id s modelId =
     (if modelId < length (vm s) then Inr (s\<lparr>vm := erase_at (vm s) modelId\<rparr>)
      else Inl (Vm_index_out_of_range modelId (length (vm s))))"

text \<open>
  The search loop shared by \<^verbatim>\<open>validVisualModel\<close> and \<^verbatim>\<open>removeVisualModel (VisualModel*)\<close>:
  \<^verbatim>\<open>for (modelId = 0; modelId < vm.size(); ++modelId) { if (vm[modelId].get() == vmp) { found; break; } }\<close>.
  It returns the final \<^verbatim>\<open>modelId\<close> and whether the pointer was found. (The counter is an
  \<^verbatim>\<open>unsigned int\<close>; it cannot wrap around unless the registry holds 2^32 renderables.)
\<close>

function find_model_loop :: "visual_model list \<Rightarrow> nat \<Rightarrow> nat \<Rightarrow> nat \<times> bool" where
  "find_model_loop ms vmp modelId =
     (if modelId < length ms
      then (if vm_addr (ms ! modelId) = vmp then (modelId, True)
            else find_model_loop ms vmp (Suc modelId))
      else (modelId, False))"
  by pat_completeness auto
termination
  by (relation "measure (\<lambda>(ms, vmp, modelId). length ms - modelId)") auto

declare find_model_loop.simps [simp del]

text \<open>\<^verbatim>\<open>validVisualModel\<close>: the pointer if the registry owns it, else \<^verbatim>\<open>nullptr\<close> (\<open>None\<close>).\<close>

definition validVisualModel :: "visual \<Rightarrow> nat \<Rightarrow> nat option" where
  "validVisualModel s vmp = (if snd (find_model_loop (vm s) vmp 0) then Some vmp else None)"

text \<open>\<^verbatim>\<open>removeVisualModel (VisualModel* vmp)\<close>.\<close>

definition removeVisualModel :: "visual \<Rightarrow> nat \<Rightarrow> visual" where
  "removeVisualModel s vmp =
     (case find_model_loop (vm s) vmp 0 of
        (modelId, found_model) \<Rightarrow>
          if found_model = True then s\<lparr>vm := erase_at (vm s) modelId\<rparr> else s)"

subsection \<open>saveImage\<close>

text \<open>
  \<^verbatim>\<open>saveImage\<close> reads the viewport size \<open>w\<close>, \<open>h\<close> and the framebuffer \<open>bits\<close> (RGBA
  bytes, row-major from the bottom row, \<open>4 * w * h\<close> of them) from OpenGL; these and the
  result \<open>encode_error\<close> of \<^verbatim>\<open>lodepng::encode\<close> are arguments here. The viewport size is
  non-negative, so it is a \<open>nat\<close>; the \<^verbatim>\<open>int\<close> products of the source are taken not to
  overflow. The model returns the array \<open>rbits\<close> handed to the encoder and the returned
  dimensions. The two inner loops are the two branches on \<^verbatim>\<open>transparent_bg\<close>.
\<close>

type_synonym GLubyte = "8 word"

function opaque_row_loop :: "GLubyte list \<Rightarrow> nat \<Rightarrow> nat \<Rightarrow> nat \<Rightarrow> nat \<Rightarrow> GLubyte list \<Rightarrow> GLubyte list" where
  "opaque_row_loop bits w rev_line for_line j rbits =
     (if j < 4 * w
      then opaque_row_loop bits w rev_line for_line (Suc j)
             (rbits[rev_line + j := (if j mod 4 = 3 then 255 else bits ! (for_line + j))])
      else rbits)"
  by pat_completeness auto
termination
  by (relation "measure (\<lambda>(bits, w, rev_line, for_line, j, rbits). 4 * w - j)") auto

function copy_row_loop :: "GLubyte list \<Rightarrow> nat \<Rightarrow> nat \<Rightarrow> nat \<Rightarrow> nat \<Rightarrow> GLubyte list \<Rightarrow> GLubyte list" where
  "copy_row_loop bits w rev_line for_line j rbits =
     (if j < 4 * w
      then copy_row_loop bits w rev_line for_line (Suc j)
             (rbits[rev_line + j := bits ! (for_line + j)])
      else rbits)"
  by pat_completeness auto
termination
  by (relation "measure (\<lambda>(bits, w, rev_line, for_line, j, rbits). 4 * w - j)") auto

function image_loop :: "bool \<Rightarrow> GLubyte list \<Rightarrow> nat \<Rightarrow> nat \<Rightarrow> nat \<Rightarrow> GLubyte list \<Rightarrow> GLubyte list" where
  "image_loop transparent_bg bits w h i rbits =
     (if i < h
      then (let rev_line = (h - i - 1) * 4 * w; for_line = i * 4 * w in
            image_loop transparent_bg bits w h (Suc i)
              (if transparent_bg then copy_row_loop bits w rev_line for_line 0 rbits
               else opaque_row_loop bits w rev_line for_line 0 rbits))
      else rbits)"
  by pat_completeness auto
termination
  by (relation "measure (\<lambda>(transparent_bg, bits, w, h, i, rbits). h - i)") auto

declare opaque_row_loop.simps [simp del] copy_row_loop.simps [simp del] image_loop.simps [simp del]

definition saveImage :: "nat \<Rightarrow> nat \<Rightarrow> GLubyte list \<Rightarrow> nat \<Rightarrow> bool \<Rightarrow> GLubyte list \<times> int \<times> int" where
  "saveImage w h bits encode_error transparent_bg =
     (let rbits = image_loop transparent_bg bits w h 0 (replicate (w * h * 4) 0)
      in (rbits, if encode_error \<noteq> 0 then (- 1, - 1) else (int w, int h)))"

text \<open>What one byte of \<open>rbits\<close> is expected to be: the byte of the vertically mirrored
  row of \<open>bits\<close>, or 255 for an alpha byte of an opaque image.\<close>

definition image_byte :: "bool \<Rightarrow> GLubyte list \<Rightarrow> nat \<Rightarrow> nat \<Rightarrow> nat \<Rightarrow> GLubyte" where
  "image_byte tb bits w h k =
     (if \<not> tb \<and> k mod 4 = 3 then 255
      else bits ! ((h - 1 - k div (4 * w)) * 4 * w + k mod (4 * w)))"

subsection \<open>Key, action, modifier and button codes\<close>

text \<open>
  Modelled from the spec: \<^verbatim>\<open>morph/keys.h\<close> is not under src/. The source's comment says
  that the key handler uses GLFW codes, so the constants are GLFW's: letters by their
  ASCII code, F1 to F10 as 290 to 299, the arrow keys, the actions, the modifier bits and
  the mouse buttons.
\<close>

definition key_a :: int where "key_a = 65"
definition key_c :: int where "key_c = 67"
definition key_h :: int where "key_h = 72"
definition key_i :: int where "key_i = 73"
definition key_l :: int where "key_l = 76"
definition key_m :: int where "key_m = 77"
definition key_o :: int where "key_o = 79"
definition key_p :: int where "key_p = 80"
definition key_q :: int where "key_q = 81"
definition key_s :: int where "key_s = 83"
definition key_u :: int where "key_u = 85"
definition key_y :: int where "key_y = 89"
definition key_z :: int where "key_z = 90"
definition key_right :: int where "key_right = 262"
definition key_left :: int where "key_left = 263"
definition key_down :: int where "key_down = 264"
definition key_up :: int where "key_up = 265"
definition key_f1 :: int where "key_f1 = 290"
definition key_f2 :: int where "key_f2 = 291"
definition key_f3 :: int where "key_f3 = 292"
definition key_f4 :: int where "key_f4 = 293"
definition key_f5 :: int where "key_f5 = 294"
definition key_f6 :: int where "key_f6 = 295"
definition key_f7 :: int where "key_f7 = 296"
definition key_f8 :: int where "key_f8 = 297"
definition key_f9 :: int where "key_f9 = 298"
definition key_f10 :: int where "key_f10 = 299"

definition keyaction_release :: int where "keyaction_release = 0"
definition keyaction_press :: int where "keyaction_press = 1"
definition keyaction_repeat :: int where "keyaction_repeat = 2"

definition keymod_shift :: int where "keymod_shift = 1"
definition keymod_control :: int where "keymod_control = 2"

definition mousebutton_left :: int where "mousebutton_left = 0"
definition mousebutton_right :: int where "mousebutton_right = 1"

lemmas key_defs =
  key_a_def key_c_def key_h_def key_i_def key_l_def key_m_def key_o_def key_p_def
  key_q_def key_s_def key_u_def key_y_def key_z_def key_right_def key_left_def
  key_down_def key_up_def key_f1_def key_f2_def key_f3_def key_f4_def key_f5_def
  key_f6_def key_f7_def key_f8_def key_f9_def key_f10_def
  keyaction_release_def keyaction_press_def keyaction_repeat_def
  keymod_shift_def keymod_control_def mousebutton_left_def mousebutton_right_def

subsection \<open>key_callback\<close>

text \<open>Appending to the output.\<close>

definition log_io :: "visual \<Rightarrow> io_event \<Rightarrow> visual" where
  "log_io s e = s\<lparr>io_log := io_log s @ [e]\<rparr>"

text \<open>
  \<^verbatim>\<open>this->vm[i]->f()\<close>: \<^verbatim>\<open>std::vector::operator[]\<close> does not check the index, so the
  call is undefined behaviour when \<open>i\<close> is not below \<^verbatim>\<open>vm.size()\<close>.
\<close>

definition vm_call :: "visual \<Rightarrow> nat \<Rightarrow> (visual_model \<Rightarrow> visual_model) \<Rightarrow> error + visual" where
  "vm_call s i f =
     (if i < length (vm s) then Inr (s\<lparr>vm := (vm s)[i := f (vm s ! i)]\<rparr>)
      else Inl (Vm_index_out_of_range i (length (vm s))))"

text \<open>\<^verbatim>\<open>signal_to_quit\<close>.\<close>

definition signal_to_quit :: "visual \<Rightarrow> visual" where
  "signal_to_quit s =
     (let s1 = (if user_info_stdout s = True then log_io s Out_user_requested_exit else s);
          s2 = s1\<lparr>readyToFinish := True\<rparr>
      in if quit_callback_set s2 then log_io s2 Call_external_quit_callback else s2)"

text \<open>
  The handler is a sequence of \<^verbatim>\<open>if\<close> statements over the local \<^verbatim>\<open>needs_render\<close> and the
  object. Each statement is one step on the pair \<open>(needs_render, object)\<close>; the steps
  run in the order of the source and stop at the first error.
\<close>

type_synonym kc_state = "bool \<times> visual"

fun run_steps :: "('a \<Rightarrow> error + 'a) list \<Rightarrow> 'a \<Rightarrow> error + 'a" where
  "run_steps [] x = Inr x"
| "run_steps (f # fs) x = (case f x of Inl e \<Rightarrow> Inl e | Inr y \<Rightarrow> run_steps fs y)"

definition pure_step :: "('a \<Rightarrow> 'a) \<Rightarrow> 'a \<Rightarrow> error + 'a" where
  "pure_step f x = Inr (f x)"

text \<open>Ctrl-q, compiled in when the template argument \<^verbatim>\<open>owned\<close> is true.\<close>

definition kc_quit :: "bool \<Rightarrow> int \<Rightarrow> int \<Rightarrow> int \<Rightarrow> kc_state \<Rightarrow> kc_state" where
  "kc_quit owned key action mods = (\<lambda>(needs_render, s).
     if owned = True \<and> key = key_q \<and> mods AND keymod_control \<noteq> 0 \<and> action = keyaction_press
     then (needs_render, signal_to_quit s) else (needs_render, s))"

definition kc_coord_arrows :: "int \<Rightarrow> int \<Rightarrow> int \<Rightarrow> kc_state \<Rightarrow> kc_state" where
  "kc_coord_arrows key action mods = (\<lambda>(needs_render, s).
     if \<not> sceneLocked s \<and> key = key_c \<and> mods AND keymod_control \<noteq> 0 \<and> action = keyaction_press
     then (True, s\<lparr>showCoordArrows := \<not> showCoordArrows s\<rparr>) else (needs_render, s))"

definition kc_help :: "bool \<Rightarrow> int \<Rightarrow> int \<Rightarrow> int \<Rightarrow> kc_state \<Rightarrow> kc_state" where
  "kc_help owned key action mods = (\<lambda>(needs_render, s).
     if key = key_h \<and> mods AND keymod_control \<noteq> 0 \<and> action = keyaction_press
     then (needs_render, log_io s (Out_help owned)) else (needs_render, s))"

definition kc_scene_lock :: "int \<Rightarrow> int \<Rightarrow> int \<Rightarrow> kc_state \<Rightarrow> kc_state" where
  "kc_scene_lock key action mods = (\<lambda>(needs_render, s).
     if key = key_l \<and> mods AND keymod_control \<noteq> 0 \<and> action = keyaction_press
     then (let s1 = s\<lparr>sceneLocked := (if sceneLocked s then False else True)\<rparr>
           in (needs_render, log_io s1 (Out_scene_locked (sceneLocked s1))))
     else (needs_render, s))"

definition kc_save_image :: "int \<Rightarrow> int \<Rightarrow> int \<Rightarrow> kc_state \<Rightarrow> kc_state" where
  "kc_save_image key action mods = (\<lambda>(needs_render, s).
     if key = key_s \<and> mods AND keymod_control \<noteq> 0 \<and> action = keyaction_press
     then (needs_render, log_io s (Save_image (title s))) else (needs_render, s))"

text \<open>Ctrl-m: \<^verbatim>\<open>savegltf\<close> throws when the file cannot be opened.\<close>

definition kc_save_gltf :: "int \<Rightarrow> int \<Rightarrow> int \<Rightarrow> kc_state \<Rightarrow> error + kc_state" where
  "kc_save_gltf key action mods = (\<lambda>(needs_render, s).
     if key = key_m \<and> mods AND keymod_control \<noteq> 0 \<and> action = keyaction_press
     then (if \<not> gltf_file_opens s then Inl Gltf_open_failed
           else Inr (needs_render, log_io s (Save_gltf (title s))))
     else Inr (needs_render, s))"

definition kc_write_json :: "int \<Rightarrow> int \<Rightarrow> int \<Rightarrow> kc_state \<Rightarrow> kc_state" where
  "kc_write_json key action mods = (\<lambda>(needs_render, s).
     if key = key_z \<and> mods AND keymod_control \<noteq> 0 \<and> action = keyaction_press
     then (let s1 = log_io s (Out_scenetrans_code (scenetrans s) (rotation s))
           in if json_file_opens s1
              then (needs_render, log_io s1 (Write_visual_json (scenetrans s1) (rotation s1)))
              else (needs_render, log_io s1 Out_json_write_failed))
     else (needs_render, s))"

text \<open>
  The body shared by the branches for F2 to F10:
  \<^verbatim>\<open>if (this->vm.size() > n) { this->selectedVisualModel = n; }\<close> and the line of output.
\<close>

definition select_if_present :: "visual \<Rightarrow> nat \<Rightarrow> visual" where
  "select_if_present s n =
     (let s1 = (if length (vm s) > n then s\<lparr>selectedVisualModel := n\<rparr> else s)
      in log_io s1 (Out_selected (selectedVisualModel s1)))"

text \<open>The chain for F1 to F10. The branch for F1 assigns 0 without a test.\<close>

definition kc_select_model :: "int \<Rightarrow> int \<Rightarrow> int \<Rightarrow> kc_state \<Rightarrow> kc_state" where
  "kc_select_model key action mods = (\<lambda>(needs_render, s).
     if key = key_f1 \<and> action = keyaction_press
     then (let s1 = s\<lparr>selectedVisualModel := 0\<rparr>
           in (needs_render, log_io s1 (Out_selected (selectedVisualModel s1))))
     else if key = key_f2 \<and> action = keyaction_press then (needs_render, select_if_present s 1)
     else if key = key_f3 \<and> action = keyaction_press then (needs_render, select_if_present s 2)
     else if key = key_f4 \<and> action = keyaction_press then (needs_render, select_if_present s 3)
     else if key = key_f5 \<and> action = keyaction_press then (needs_render, select_if_present s 4)
     else if key = key_f6 \<and> action = keyaction_press then (needs_render, select_if_present s 5)
     else if key = key_f7 \<and> action = keyaction_press then (needs_render, select_if_present s 6)
     else if key = key_f8 \<and> action = keyaction_press then (needs_render, select_if_present s 7)
     else if key = key_f9 \<and> action = keyaction_press then (needs_render, select_if_present s 8)
     else if key = key_f10 \<and> action = keyaction_press then (needs_render, select_if_present s 9)
     else (needs_render, s))"

text \<open>Shift with F1 to F10: \<^verbatim>\<open>this->vm[this->selectedVisualModel]->toggleHide()\<close>, with no test.\<close>

definition kc_toggle_hide :: "int \<Rightarrow> int \<Rightarrow> int \<Rightarrow> kc_state \<Rightarrow> error + kc_state" where
  "kc_toggle_hide key action mods = (\<lambda>(needs_render, s).
     if (key = key_f10 \<or> key = key_f1 \<or> key = key_f2 \<or> key = key_f3
         \<or> key = key_f4 \<or> key = key_f5 \<or> key = key_f6
         \<or> key = key_f7 \<or> key = key_f8 \<or> key = key_f9)
        \<and> action = keyaction_press \<and> mods AND keymod_shift \<noteq> 0
     then (case vm_call s (selectedVisualModel s) toggleHide of
             Inl e \<Rightarrow> Inl e | Inr s1 \<Rightarrow> Inr (needs_render, s1))
     else Inr (needs_render, s))"

text \<open>Shift-Left and Shift-Right: the call is guarded by \<^verbatim>\<open>!this->vm.empty()\<close>.\<close>

definition kc_dec_alpha :: "int \<Rightarrow> int \<Rightarrow> int \<Rightarrow> kc_state \<Rightarrow> error + kc_state" where
  "kc_dec_alpha key action mods = (\<lambda>(needs_render, s).
     if key = key_left \<and> (action = keyaction_press \<or> action = keyaction_repeat)
        \<and> mods AND keymod_shift \<noteq> 0
     then (if vm s \<noteq> []
           then (case vm_call s (selectedVisualModel s) decAlpha of
                   Inl e \<Rightarrow> Inl e | Inr s1 \<Rightarrow> Inr (needs_render, s1))
           else Inr (needs_render, s))
     else Inr (needs_render, s))"

definition kc_inc_alpha :: "int \<Rightarrow> int \<Rightarrow> int \<Rightarrow> kc_state \<Rightarrow> error + kc_state" where
  "kc_inc_alpha key action mods = (\<lambda>(needs_render, s).
     if key = key_right \<and> (action = keyaction_press \<or> action = keyaction_repeat)
        \<and> mods AND keymod_shift \<noteq> 0
     then (if vm s \<noteq> []
           then (case vm_call s (selectedVisualModel s) incAlpha of
                   Inl e \<Rightarrow> Inl e | Inr s1 \<Rightarrow> Inr (needs_render, s1))
           else Inr (needs_render, s))
     else Inr (needs_render, s))"

text \<open>Shift-Up, Shift-Down: the radius of the cylindrical projection.\<close>

definition kc_cyl_radius_up :: "int \<Rightarrow> int \<Rightarrow> int \<Rightarrow> kc_state \<Rightarrow> kc_state" where
  "kc_cyl_radius_up key action mods = (\<lambda>(needs_render, s).
     if key = key_up \<and> (action = keyaction_press \<or> action = keyaction_repeat)
        \<and> mods AND keymod_shift \<noteq> 0
     then (let s1 = s\<lparr>cyl_radius := cyl_radius s * 2\<rparr>
           in (needs_render, log_io s1 (Out_cyl_radius (cyl_radius s1))))
     else (needs_render, s))"

definition kc_cyl_radius_down :: "int \<Rightarrow> int \<Rightarrow> int \<Rightarrow> kc_state \<Rightarrow> kc_state" where
  "kc_cyl_radius_down key action mods = (\<lambda>(needs_render, s).
     if key = key_down \<and> (action = keyaction_press \<or> action = keyaction_repeat)
        \<and> mods AND keymod_shift \<noteq> 0
     then (let s1 = s\<lparr>cyl_radius := cyl_radius s * (1 / 2)\<rparr>
           in (needs_render, log_io s1 (Out_cyl_radius (cyl_radius s1))))
     else (needs_render, s))"

text \<open>Ctrl-Up, Ctrl-Down: the height of the cylindrical projection.\<close>

definition kc_cyl_height_up :: "int \<Rightarrow> int \<Rightarrow> int \<Rightarrow> kc_state \<Rightarrow> kc_state" where
  "kc_cyl_height_up key action mods = (\<lambda>(needs_render, s).
     if key = key_up \<and> (action = keyaction_press \<or> action = keyaction_repeat)
        \<and> mods AND keymod_control \<noteq> 0
     then (let s1 = s\<lparr>cyl_height := cyl_height s * 2\<rparr>
           in (needs_render, log_io s1 (Out_cyl_height (cyl_height s1))))
     else (needs_render, s))"

definition kc_cyl_height_down :: "int \<Rightarrow> int \<Rightarrow> int \<Rightarrow> kc_state \<Rightarrow> kc_state" where
  "kc_cyl_height_down key action mods = (\<lambda>(needs_render, s).
     if key = key_down \<and> (action = keyaction_press \<or> action = keyaction_repeat)
        \<and> mods AND keymod_control \<noteq> 0
     then (let s1 = s\<lparr>cyl_height := cyl_height s * (1 / 2)\<rparr>
           in (needs_render, log_io s1 (Out_cyl_height (cyl_height s1))))
     else (needs_render, s))"

text \<open>Ctrl-a: reset the view to the defaults.\<close>

definition kc_reset_view :: "int \<Rightarrow> int \<Rightarrow> int \<Rightarrow> kc_state \<Rightarrow> kc_state" where
  "kc_reset_view key action mods = (\<lambda>(needs_render, s).
     if \<not> sceneLocked s \<and> key = key_a \<and> mods AND keymod_control \<noteq> 0 \<and> action = keyaction_press
     then (let s1 = log_io s Out_reset_view;
               s2 = s1\<lparr>scenetrans := scenetrans_default s1\<rparr>;
               s3 = s2\<lparr>cyl_cam_pos := cyl_cam_pos_default s2\<rparr>;
               s4 = s3\<lparr>rotation := rotation_default s3\<rparr>
           in (True, s4))
     else (needs_render, s))"

text \<open>Ctrl-o and Ctrl-p: the field of view. \<^verbatim>\<open>needs_render\<close> is not assigned.\<close>

definition kc_fov_reduce :: "int \<Rightarrow> int \<Rightarrow> int \<Rightarrow> kc_state \<Rightarrow> kc_state" where
  "kc_fov_reduce key action mods = (\<lambda>(needs_render, s).
     if \<not> sceneLocked s \<and> key = key_o \<and> mods AND keymod_control \<noteq> 0 \<and> action = keyaction_press
     then (let s1 = s\<lparr>fov := fov s - 2\<rparr>;
               s2 = (if fov s1 < 1 then s1\<lparr>fov := 2\<rparr> else s1)
           in (needs_render, log_io s2 (Out_fov_reduced (fov s2))))
     else (needs_render, s))"

definition kc_fov_increase :: "int \<Rightarrow> int \<Rightarrow> int \<Rightarrow> kc_state \<Rightarrow> kc_state" where
  "kc_fov_increase key action mods = (\<lambda>(needs_render, s).
     if \<not> sceneLocked s \<and> key = key_p \<and> mods AND keymod_control \<noteq> 0 \<and> action = keyaction_press
     then (let s1 = s\<lparr>fov := fov s + 2\<rparr>;
               s2 = (if fov s1 > 179 then s1\<lparr>fov := 178\<rparr> else s1)
           in (needs_render, log_io s2 (Out_fov_increased (fov s2))))
     else (needs_render, s))"

text \<open>Ctrl-u and Ctrl-i: the near clipping plane.\<close>

definition kc_znear_reduce :: "int \<Rightarrow> int \<Rightarrow> int \<Rightarrow> kc_state \<Rightarrow> kc_state" where
  "kc_znear_reduce key action mods = (\<lambda>(needs_render, s).
     if \<not> sceneLocked s \<and> key = key_u \<and> mods AND keymod_control \<noteq> 0 \<and> action = keyaction_press
     then (let s1 = s\<lparr>zNear := zNear s / 2\<rparr>
           in (needs_render, log_io s1 (Out_znear_reduced (zNear s1))))
     else (needs_render, s))"

definition kc_znear_increase :: "int \<Rightarrow> int \<Rightarrow> int \<Rightarrow> kc_state \<Rightarrow> kc_state" where
  "kc_znear_increase key action mods = (\<lambda>(needs_render, s).
     if \<not> sceneLocked s \<and> key = key_i \<and> mods AND keymod_control \<noteq> 0 \<and> action = keyaction_press
     then (let s1 = s\<lparr>zNear := zNear s * 2\<rparr>
           in (needs_render, log_io s1 (Out_znear_increased (zNear s1))))
     else (needs_render, s))"

text \<open>Ctrl-y: cycle the projection type.\<close>

definition kc_cycle_ptype :: "int \<Rightarrow> int \<Rightarrow> int \<Rightarrow> kc_state \<Rightarrow> kc_state" where
  "kc_cycle_ptype key action mods = (\<lambda>(needs_render, s).
     if key = key_y \<and> mods AND keymod_control \<noteq> 0 \<and> action = keyaction_press
     then (True,
           if ptype s = perspective then s\<lparr>ptype := orthographic\<rparr>
           else if ptype s = orthographic then s\<lparr>ptype := cylindrical\<rparr>
           else s\<lparr>ptype := perspective\<rparr>)
     else (needs_render, s))"

text \<open>\<^verbatim>\<open>key_callback_extra\<close>: the virtual hook, empty in this class.\<close>

definition key_callback_extra :: "int \<Rightarrow> int \<Rightarrow> int \<Rightarrow> int \<Rightarrow> visual \<Rightarrow> visual" where
  "key_callback_extra key scancode action mods s = s"

text \<open>
  \<^verbatim>\<open>key_callback<owned>\<close>: the result is the returned \<^verbatim>\<open>needs_render\<close> and the object, or
  the error that ended the call.
\<close>

definition key_callback :: "bool \<Rightarrow> visual \<Rightarrow> int \<Rightarrow> int \<Rightarrow> int \<Rightarrow> int \<Rightarrow> error + kc_state" where
  "key_callback owned s key scancode action mods =
     run_steps
       [pure_step (kc_quit owned key action mods),
        pure_step (kc_coord_arrows key action mods),
        pure_step (kc_help owned key action mods),
        pure_step (kc_scene_lock key action mods),
        pure_step (kc_save_image key action mods),
        kc_save_gltf key action mods,
        pure_step (kc_write_json key action mods),
        pure_step (kc_select_model key action mods),
        kc_toggle_hide key action mods,
        kc_dec_alpha key action mods,
        kc_inc_alpha key action mods,
        pure_step (kc_cyl_radius_up key action mods),
        pure_step (kc_cyl_radius_down key action mods),
        pure_step (kc_cyl_height_up key action mods),
        pure_step (kc_cyl_height_down key action mods),
        pure_step (kc_reset_view key action mods),
        pure_step (kc_fov_reduce key action mods),
        pure_step (kc_fov_increase key action mods),
        pure_step (kc_znear_reduce key action mods),
        pure_step (kc_znear_increase key action mods),
        pure_step (kc_cycle_ptype key action mods),
        pure_step (\<lambda>(needs_render, s1). (needs_render, key_callback_extra key scancode action mods s1))]
       (False, s)"

text \<open>A sequence of key events \<open>(key, scancode, action, mods)\<close>, handled one after the other.\<close>

fun key_events :: "bool \<Rightarrow> visual \<Rightarrow> (int \<times> int \<times> int \<times> int) list \<Rightarrow> error + visual" where
  "key_events owned s [] = Inr s"
| "key_events owned s ((key, scancode, action, mods) # es) =
     (case key_callback owned s key scancode action mods of
        Inl e \<Rightarrow> Inl e
      | Inr (needs_render, s1) \<Rightarrow> key_events owned s1 es)"

subsection \<open>scroll_callback\<close>

text \<open>
  \<^verbatim>\<open>scroll_callback (double xoffset, double yoffset)\<close>: the returned \<^verbatim>\<open>needs_render\<close> and
  the object. In the orthographic branch the proposed bounds \<^verbatim>\<open>_lb\<close>, \<^verbatim>\<open>_rt\<close> are
  assigned only under the guard \<^verbatim>\<open>_lb < 0.0f && _rt > 0.0f\<close>.
\<close>

definition scroll_callback :: "mathlib \<Rightarrow> visual \<Rightarrow> real \<Rightarrow> real \<Rightarrow> bool \<times> visual" where
  "scroll_callback L s xoffset yoffset =
     (if sceneLocked s then (False, s)
      else if ptype s = orthographic
      then (let lb = vec2_add_scalar (ortho_lb s) (yoffset * scenetrans_stepsize s);
                rt = vec2_sub_scalar (ortho_rt s) (yoffset * scenetrans_stepsize s)
            in if vec2_lt_scalar lb 0 \<and> vec2_gt_scalar rt 0
               then (True, s\<lparr>ortho_lb := lb, ortho_rt := rt\<rparr>)
               else (True, s))
      else (let s1 = s\<lparr>scenetrans := (scenetrans s)
                       \<lparr>v3x := v3x (scenetrans s) - xoffset * scenetrans_stepsize s\<rparr>\<rparr>;
                s2 = s1\<lparr>cyl_cam_pos := (cyl_cam_pos s1)
                       \<lparr>v4x := v4x (cyl_cam_pos s1) + xoffset * scenetrans_stepsize s1\<rparr>\<rparr>;
                scroll_move_y = \<lparr>v4x = 0, v4y = yoffset * scenetrans_stepsize s2, v4z = 0, v4w = 1\<rparr>;
                s3 = s2\<lparr>scenetrans := (scenetrans s2)
                       \<lparr>v3z := v3z (scenetrans s2) + v4y scroll_move_y\<rparr>\<rparr>;
                sceneview_rotn = mat44_rotate L mat44_identity (rotation s3);
                s4 = s3\<lparr>cyl_cam_pos := vec4_add (cyl_cam_pos s3)
                                          (mat44_mul_vec4 sceneview_rotn scroll_move_y)\<rparr>
            in (True, s4)))"

text \<open>A sequence of scroll events \<open>(xoffset, yoffset)\<close>, handled one after the other.\<close>

fun scroll_events :: "mathlib \<Rightarrow> visual \<Rightarrow> (real \<times> real) list \<Rightarrow> visual" where
  "scroll_events L s [] = s"
| "scroll_events L s ((xoffset, yoffset) # es) =
     scroll_events L (snd (scroll_callback L s xoffset yoffset)) es"

subsection \<open>mouse_button_callback and cursor_position_callback\<close>

text \<open>\<^verbatim>\<open>mouse_button_callback_extra\<close>: the virtual hook, empty in this class.\<close>

definition mouse_button_callback_extra :: "int \<Rightarrow> int \<Rightarrow> int \<Rightarrow> visual \<Rightarrow> visual" where
  "mouse_button_callback_extra button action mods s = s"

text \<open>
  \<^verbatim>\<open>mouse_button_callback (int button, int action, int mods)\<close>. A locked scene returns at
  once, for a press and for a release alike.
\<close>

definition mouse_button_callback :: "mathlib \<Rightarrow> visual \<Rightarrow> int \<Rightarrow> int \<Rightarrow> int \<Rightarrow> visual" where
  "mouse_button_callback L s button action mods =
     (if sceneLocked s then s
      else (let s1 = (if action = keyaction_press
                      then (let a = s\<lparr>mousePressPosition := cursorpos s\<rparr>;
                                b = a\<lparr>savedRotation := rotation a\<rparr>;
                                c = b\<lparr>scene := mat44_rotate L mat44_identity (savedRotation b)\<rparr>
                            in c\<lparr>invscene := mat44_invert L (scene c)\<rparr>)
                      else s);
                s2 = (if button = mousebutton_left
                      then s1\<lparr>rotateModMode := (if mods AND keymod_control \<noteq> 0 then True else False),
                              rotateMode := (action = keyaction_press),
                              translateMode := False\<rparr>
                      else if button = mousebutton_right
                      then s1\<lparr>rotateMode := False, translateMode := (action = keyaction_press)\<rparr>
                      else s1)
            in mouse_button_callback_extra button action mods s2))"

text \<open>
  The conversion of a pixel position to the range -1 to 1, used for both axes:
  \<^verbatim>\<open>p -= window_w * 0.5f; p /= window_w * 0.5f\<close>.
\<close>

definition to_unit_range :: "visual \<Rightarrow> vec2 \<Rightarrow> vec2" where
  "to_unit_range s p =
     vec2_div_scalar (vec2_sub_scalar p (real_of_int (window_w s) * (1 / 2)))
                     (real_of_int (window_w s) * (1 / 2))"

text \<open>
  The depth for the inverse projection: the point \<open>(0, 0, scenetrans.z, 1)\<close> is projected
  forward and its z is divided by its w.
\<close>

definition coord_z_of :: "visual \<Rightarrow> real" where
  "coord_z_of s =
     (let point = \<lparr>v4x = 0, v4y = 0, v4z = v3z (scenetrans s), v4w = 1\<rparr>;
          pp = mat44_mul_vec4 (projection s) point
      in v4z pp / v4w pp)"

text \<open>
  \<^verbatim>\<open>cursor_position_callback (double x, double y)\<close>: the returned \<^verbatim>\<open>needs_render\<close> and the
  object. The handler does not read \<^verbatim>\<open>sceneLocked\<close>; it acts on \<^verbatim>\<open>rotateMode\<close> and
  \<^verbatim>\<open>translateMode\<close> alone. (A division by zero, which gives an infinity or a NaN in the
  source, gives 0 in the model; no statement below depends on one.)
\<close>

definition cursor_position_callback :: "mathlib \<Rightarrow> visual \<Rightarrow> real \<Rightarrow> real \<Rightarrow> bool \<times> visual" where
  "cursor_position_callback L s x y =
     (let s0 = s\<lparr>cursorpos := \<lparr>v2x = x, v2y = y\<rparr>\<rparr>;
          mouseMoveWorld = \<lparr>v3x = 0, v3y = 0, v3z = 0\<rparr>
      in if rotateMode s0
         then (let p0_coord = to_unit_range s0 (mousePressPosition s0);
                   p1_coord = to_unit_range s0 (cursorpos s0);
                   coord_z = coord_z_of s0;
                   p0 = \<lparr>v4x = v2x p0_coord, v4y = v2y p0_coord, v4z = coord_z, v4w = 1\<rparr>;
                   p1 = \<lparr>v4x = v2x p1_coord, v4y = v2y p1_coord, v4z = coord_z, v4w = 1\<rparr>;
                   v0 = mat44_mul_vec4 (invproj s0) p0;
                   v1 = mat44_mul_vec4 (invproj s0) p1;
                   mouseMoveWorld1 =
                     (if rotateModMode s0
                      then mouseMoveWorld\<lparr>v3z := - ((v4y v1 / v4w v1) - (v4y v0 / v4w v0))
                                                  + ((v4x v1 / v4w v1) - (v4x v0 / v4w v0))\<rparr>
                      else mouseMoveWorld\<lparr>v3y := - ((v4x v1 / v4w v1) - (v4x v0 / v4w v0)),
                                          v3x := - ((v4y v1 / v4w v1) - (v4y v0 / v4w v0))\<rparr>);
                   rotamount = vec3_length L mouseMoveWorld1 * 40;
                   a = s0\<lparr>rotationAxis := vec3_mul_scalar mouseMoveWorld1 rotamount\<rparr>;
                   b = a\<lparr>rotationAxis := vec3_renormalize L (rotationAxis a)\<rparr>;
                   tmp_4D = mat44_mul_vec3 L (invscene b) (rotationAxis b);
                   c = b\<lparr>rotationAxis := vec3_set_from tmp_4D\<rparr>;
                   d = c\<lparr>rotation := savedRotation c\<rparr>;
                   rotnQuat = quaternion_axis_angle L (rotationAxis d) (- rotamount * deg2rad L);
                   e = d\<lparr>rotation := quaternion_postmultiply L (rotation d) rotnQuat\<rparr>
               in (True, e))
         else if translateMode s0
         then (let p0_coord = to_unit_range s0 (mousePressPosition s0);
                   p1_coord = to_unit_range s0 (cursorpos s0);
                   a = s0\<lparr>mousePressPosition := cursorpos s0\<rparr>;
                   coord_z = coord_z_of a;
                   p0 = \<lparr>v4x = v2x p0_coord, v4y = v2y p0_coord, v4z = coord_z, v4w = 1\<rparr>;
                   p1 = \<lparr>v4x = v2x p1_coord, v4y = v2y p1_coord, v4z = coord_z, v4w = 1\<rparr>;
                   v0 = mat44_mul_vec4 (invproj a) p0;
                   v1 = mat44_mul_vec4 (invproj a) p1;
                   mouseMoveWorld1 = mouseMoveWorld\<lparr>v3x := (v4x v1 / v4w v1) - (v4x v0 / v4w v0),
                                                   v3y := (v4y v1 / v4w v1) - (v4y v0 / v4w v0)\<rparr>;
                   b = a\<lparr>scenetrans := (scenetrans a)\<lparr>v3x := v3x (scenetrans a) + v3x mouseMoveWorld1\<rparr>\<rparr>;
                   c = b\<lparr>scenetrans := (scenetrans b)\<lparr>v3y := v3y (scenetrans b) - v3y mouseMoveWorld1\<rparr>\<rparr>;
                   d = c\<lparr>cyl_cam_pos := (cyl_cam_pos c)\<lparr>v4x := v4x (cyl_cam_pos c) - v3x mouseMoveWorld1\<rparr>\<rparr>;
                   e = d\<lparr>cyl_cam_pos := (cyl_cam_pos d)\<lparr>v4z := v4z (cyl_cam_pos d) + v3y mouseMoveWorld1\<rparr>\<rparr>
               in (True, e))
         else (False, s0))"

text \<open>A sequence of cursor positions \<open>(x, y)\<close>, handled one after the other.\<close>

fun cursor_moves :: "mathlib \<Rightarrow> visual \<Rightarrow> (real \<times> real) list \<Rightarrow> visual" where
  "cursor_moves L s [] = s"
| "cursor_moves L s ((x, y) # ps) = cursor_moves L (snd (cursor_position_callback L s x y)) ps"

text \<open>\<^verbatim>\<open>window_size_callback\<close> and \<^verbatim>\<open>window_close_callback\<close>.\<close>

definition window_size_callback :: "visual \<Rightarrow> int \<Rightarrow> int \<Rightarrow> bool \<times> visual" where
  "window_size_callback s width height = (True, s\<lparr>window_w := width, window_h := height\<rparr>)"

definition window_close_callback :: "visual \<Rightarrow> visual" where
  "window_close_callback s =
     (if preventWindowCloseWithButton s = False then signal_to_quit s
      else log_io s Err_ignoring_close)"

subsection \<open>init_gl: reading the saved scene transform\<close>

text \<open>
  \<^verbatim>\<open>nlohmann/json.hpp\<close> is not under src/. A JSON value is modelled by its structure, an
  object by the list of its members, whose keys are distinct; \<^verbatim>\<open>contains\<close> on anything
  but an object is false; \<^verbatim>\<open>get<float>()\<close> gives the number of a number (and 1 or 0 for a
  boolean, which the library converts) and throws a type error on every other value.
\<close>

datatype json =
  JNull
  | JBool bool
  | JNumber real
  | JString string
  | JArray "json list"
  | JObject "(string \<times> json) list"

datatype json_exception = Json_parse_error | Json_type_error

definition json_find :: "json \<Rightarrow> string \<Rightarrow> json option" where
  "json_find j k = (case j of JObject kvs \<Rightarrow> map_of kvs k | _ \<Rightarrow> None)"

definition json_contains :: "json \<Rightarrow> string \<Rightarrow> bool" where
  "json_contains j k = (json_find j k \<noteq> None)"

definition json_get_float :: "json \<Rightarrow> json_exception + real" where
  "json_get_float j =
     (case j of JNumber r \<Rightarrow> Inr r
      | JBool b \<Rightarrow> Inr (if b then 1 else 0)
      | _ \<Rightarrow> Inl Json_type_error)"

text \<open>
  The right-hand side of each assignment of the block:
  \<^verbatim>\<open>vconf.contains(k) ? vconf[k].get<float>() : old\<close>.
\<close>

definition read_field :: "json \<Rightarrow> string \<Rightarrow> real \<Rightarrow> json_exception + real" where
  "read_field vconf k old =
     (if json_contains vconf k
      then (case json_find vconf k of Some v \<Rightarrow> json_get_float v | None \<Rightarrow> Inl Json_type_error)
      else Inr old)"

text \<open>
  \<^verbatim>\<open>try { ... } catch (...) { }\<close>: the statements run in order on the object; the first one
  that throws ends the block, and the object stays as the statements before it left it.
  A statement throws, if at all, while its right-hand side is evaluated, before it
  assigns.
\<close>

fun try_statements :: "('a \<Rightarrow> json_exception + 'a) list \<Rightarrow> 'a \<Rightarrow> 'a" where
  "try_statements [] x = x"
| "try_statements (f # fs) x = (case f x of Inl e \<Rightarrow> x | Inr y \<Rightarrow> try_statements fs y)"

definition assign_from :: "(json_exception + real) \<Rightarrow> (real \<Rightarrow> 'a) \<Rightarrow> json_exception + 'a" where
  "assign_from rhs store = (case rhs of Inl e \<Rightarrow> Inl e | Inr v \<Rightarrow> Inr (store v))"

text \<open>
  The block of \<^verbatim>\<open>init_gl\<close> that reads \<^verbatim>\<open>/tmp/Visual.json\<close>. \<open>file\<close> is what
  \<^verbatim>\<open>fi >> vconf\<close> yields: \<open>None\<close> when the file is absent, unreadable or not JSON text (the
  extraction throws), the parsed value otherwise.
\<close>

definition init_gl_read_config :: "json option \<Rightarrow> visual \<Rightarrow> visual" where
  "init_gl_read_config file s =
     (case file of
        None \<Rightarrow> s
      | Some vconf \<Rightarrow>
          try_statements
            [\<lambda>t. assign_from (read_field vconf ''scenetrans_x'' (v3x (scenetrans t)))
                    (\<lambda>v. t\<lparr>scenetrans := (scenetrans t)\<lparr>v3x := v\<rparr>\<rparr>),
             \<lambda>t. assign_from (read_field vconf ''scenetrans_y'' (v3y (scenetrans t)))
                    (\<lambda>v. t\<lparr>scenetrans := (scenetrans t)\<lparr>v3y := v\<rparr>\<rparr>),
             \<lambda>t. assign_from (read_field vconf ''scenetrans_z'' (v3z (scenetrans t)))
                    (\<lambda>v. t\<lparr>scenetrans := (scenetrans t)\<lparr>v3z := v\<rparr>\<rparr>),
             \<lambda>t. Inr (t\<lparr>scenetrans_default := (scenetrans_default t)\<lparr>v3x := v3x (scenetrans t)\<rparr>\<rparr>),
             \<lambda>t. Inr (t\<lparr>scenetrans_default := (scenetrans_default t)\<lparr>v3y := v3y (scenetrans t)\<rparr>\<rparr>),
             \<lambda>t. Inr (t\<lparr>scenetrans_default := (scenetrans_default t)\<lparr>v3z := v3z (scenetrans t)\<rparr>\<rparr>),
             \<lambda>t. assign_from (read_field vconf ''scenerotn_w'' (qw (rotation t)))
                    (\<lambda>v. t\<lparr>rotation := (rotation t)\<lparr>qw := v\<rparr>\<rparr>),
             \<lambda>t. assign_from (read_field vconf ''scenerotn_x'' (qx (rotation t)))
                    (\<lambda>v. t\<lparr>rotation := (rotation t)\<lparr>qx := v\<rparr>\<rparr>),
             \<lambda>t. assign_from (read_field vconf ''scenerotn_y'' (qy (rotation t)))
                    (\<lambda>v. t\<lparr>rotation := (rotation t)\<lparr>qy := v\<rparr>\<rparr>),
             \<lambda>t. assign_from (read_field vconf ''scenerotn_z'' (qz (rotation t)))
                    (\<lambda>v. t\<lparr>rotation := (rotation t)\<lparr>qz := v\<rparr>\<rparr>)]
            s)"

subsection \<open>Predicates and fixtures of the statements\<close>

text \<open>A press of Ctrl-o or Ctrl-p (any further modifiers, any scancode).\<close>

definition fov_key_event :: "int \<times> int \<times> int \<times> int \<Rightarrow> bool" where
  "fov_key_event e = (case e of (key, scancode, action, mods) \<Rightarrow>
     (key = key_o \<or> key = key_p) \<and> action = keyaction_press \<and> mods AND keymod_control \<noteq> 0)"

text \<open>The field of view is an even whole number of degrees from 2 to 178.\<close>

definition fov_even :: "visual \<Rightarrow> bool" where
  "fov_even s = (\<exists>k::nat. 1 \<le> k \<and> k \<le> 89 \<and> fov s = 2 * real k)"



text \<open>The invariant of the orthographic bounds: \<open>ortho_lb < 0 < ortho_rt\<close> in every component.\<close>

definition ortho_bounds_ok :: "visual \<Rightarrow> bool" where
  "ortho_bounds_ok s =
     (v2x (ortho_lb s) < 0 \<and> v2y (ortho_lb s) < 0 \<and> 0 < v2x (ortho_rt s) \<and> 0 < v2y (ortho_rt s))"

text \<open>The object with the bounds that a scroll by \<open>yoffset\<close> proposes.\<close>

definition ortho_rescaled :: "visual \<Rightarrow> real \<Rightarrow> visual" where
  "ortho_rescaled s yoffset =
     s\<lparr>ortho_lb := \<lparr>v2x = v2x (ortho_lb s) + yoffset * scenetrans_stepsize s,
                    v2y = v2y (ortho_lb s) + yoffset * scenetrans_stepsize s\<rparr>,
       ortho_rt := \<lparr>v2x = v2x (ortho_rt s) - yoffset * scenetrans_stepsize s,
                    v2y = v2y (ortho_rt s) - yoffset * scenetrans_stepsize s\<rparr>\<rparr>"

text \<open>
  The seven fields in the order in which the block reads them; a field is readable when it
  is missing or holds a value that \<^verbatim>\<open>get<float>()\<close> converts; the readable prefix is the
  fields before the first one that is present and not convertible; \<open>field_or\<close> is the
  number of a field, or the old value when the field is missing.
\<close>

definition snapshot_fields :: "string list" where
  "snapshot_fields =
     [''scenetrans_x'', ''scenetrans_y'', ''scenetrans_z'',
      ''scenerotn_w'', ''scenerotn_x'', ''scenerotn_y'', ''scenerotn_z'']"

definition field_readable :: "json \<Rightarrow> string \<Rightarrow> bool" where
  "field_readable vconf k =
     (case json_find vconf k of
        None \<Rightarrow> True
      | Some v \<Rightarrow> (case json_get_float v of Inr r \<Rightarrow> True | Inl e \<Rightarrow> False))"

definition readable_prefix :: "json \<Rightarrow> string list" where
  "readable_prefix vconf = takeWhile (field_readable vconf) snapshot_fields"

definition snapshot_well_formed :: "json \<Rightarrow> bool" where
  "snapshot_well_formed vconf = list_all (field_readable vconf) snapshot_fields"

definition field_or :: "json \<Rightarrow> string \<Rightarrow> real \<Rightarrow> real" where
  "field_or vconf k old =
     (case json_find vconf k of
        None \<Rightarrow> old
      | Some v \<Rightarrow> (case json_get_float v of Inr r \<Rightarrow> r | Inl e \<Rightarrow> old))"

text \<open>
  The default object after a right-button press, a press of Ctrl-l and the release of the
  right button, in this order.
\<close>

definition drag_then_lock :: "mathlib \<Rightarrow> visual" where
  "drag_then_lock L =
     (let s1 = mouse_button_callback L visual_default mousebutton_right keyaction_press 0;
          s2 = (case key_callback True s1 key_l 0 keyaction_press keymod_control of
                  Inr (needs_render, t) \<Rightarrow> t | Inl e \<Rightarrow> s1)
      in mouse_button_callback L s2 mousebutton_right keyaction_release 0)"

section \<open>Properties\<close>

subsection \<open>The registry\<close>

lemma find_model_loop_not_found:
  "\<forall>j. i \<le> j \<and> j < length ms \<longrightarrow> vm_addr (ms ! j) \<noteq> p \<Longrightarrow>
   find_model_loop ms p i = (max i (length ms), False)"
proof (induction ms p i rule: find_model_loop.induct)
  case (1 ms vmp modelId)
  show ?case
  proof (cases "modelId < length ms")
    case True
    with "1.prems" have ne: "vm_addr (ms ! modelId) \<noteq> vmp" by simp
    have "find_model_loop ms vmp (Suc modelId) = (max (Suc modelId) (length ms), False)"
      using "1.IH" [OF True ne] "1.prems" by simp
    with True ne show ?thesis
      by (subst find_model_loop.simps) (simp add: max_def)
  next
    case False
    then show ?thesis
      by (subst find_model_loop.simps) (simp add: max_def)
  qed
qed

lemma find_model_loop_found:
  "i \<le> k \<Longrightarrow> k < length ms \<Longrightarrow> vm_addr (ms ! k) = p \<Longrightarrow>
   \<forall>j. i \<le> j \<and> j < k \<longrightarrow> vm_addr (ms ! j) \<noteq> p \<Longrightarrow>
   find_model_loop ms p i = (k, True)"
proof (induction ms p i rule: find_model_loop.induct)
  case (1 ms vmp modelId)
  show ?case
  proof (cases "modelId = k")
    case True
    with "1.prems" show ?thesis
      by (subst find_model_loop.simps) simp
  next
    case False
    with "1.prems" have lt: "modelId < k" and inr: "modelId < length ms" by simp_all
    with "1.prems" have ne: "vm_addr (ms ! modelId) \<noteq> vmp" by simp
    have "find_model_loop ms vmp (Suc modelId) = (k, True)"
      using "1.IH" [OF inr ne] "1.prems" lt by simp
    with inr ne show ?thesis
      by (subst find_model_loop.simps) simp
  qed
qed

lemma erase_at_split:
  "erase_at (pre @ x # post) (length pre) = pre @ post"
  by (simp add: erase_at_def)

text \<open>
  C10. For a pointer that is the address of no owned renderable, \<open>removeVisualModel\<close>
  returns the object unchanged. For an owned pointer it erases exactly the first element
  whose address equals the pointer: the registry splits as \<open>pre @ x # post\<close> with \<open>x\<close> the
  first match, and becomes \<open>pre @ post\<close>; nothing else of the object changes. The
  function is total, so there is no error in either case.
\<close>

theorem removeVisualModel_first_match:
  "(p \<notin> vm_addr ` set (vm s) \<longrightarrow> removeVisualModel s p = s) \<and>
   (p \<in> vm_addr ` set (vm s) \<longrightarrow>
      (\<exists>pre x post. vm s = pre @ x # post \<and> vm_addr x = p \<and> p \<notin> vm_addr ` set pre \<and>
         removeVisualModel s p = s\<lparr>vm := pre @ post\<rparr>))"
proof (intro conjI impI)
  assume "p \<notin> vm_addr ` set (vm s)"
  then have "\<forall>j. 0 \<le> j \<and> j < length (vm s) \<longrightarrow> vm_addr (vm s ! j) \<noteq> p"
    by (metis image_eqI nth_mem)
  then have "find_model_loop (vm s) p 0 = (max 0 (length (vm s)), False)"
    by (rule find_model_loop_not_found)
  then show "removeVisualModel s p = s"
    by (simp add: removeVisualModel_def)
next
  assume "p \<in> vm_addr ` set (vm s)"
  then obtain x where xin: "x \<in> set (vm s)" and xp: "vm_addr x = p" by auto
  from split_list_first_prop [of "vm s" "\<lambda>m. vm_addr m = p"] xin xp
  obtain pre y post where sp: "vm s = pre @ y # post" and yp: "vm_addr y = p"
    and npre: "\<forall>m \<in> set pre. vm_addr m \<noteq> p"
    by blast
  have k: "length pre < length (vm s)" using sp by simp
  have atk: "vm_addr (vm s ! length pre) = p" using sp yp by simp
  have before: "\<forall>j. 0 \<le> j \<and> j < length pre \<longrightarrow> vm_addr (vm s ! j) \<noteq> p"
    using sp npre by (simp add: nth_append)
  have "find_model_loop (vm s) p 0 = (length pre, True)"
    using find_model_loop_found [OF _ k atk before] by simp
  then have "removeVisualModel s p = s\<lparr>vm := pre @ post\<rparr>"
    by (simp add: removeVisualModel_def sp erase_at_split)
  moreover have "p \<notin> vm_addr ` set pre" using npre by auto
  ultimately show "\<exists>pre x post. vm s = pre @ x # post \<and> vm_addr x = p \<and>
      p \<notin> vm_addr ` set pre \<and> removeVisualModel s p = s\<lparr>vm := pre @ post\<rparr>"
    using sp yp by blast
qed

theorem removeVisualModel_first_match_witness:
  "(7 \<notin> vm_addr ` set (vm (visual_default\<lparr>vm :=
        [\<lparr>vm_addr = 10, vm_hide = False, vm_alpha = 1\<rparr>,
         \<lparr>vm_addr = 20, vm_hide = False, vm_alpha = 1\<rparr>,
         \<lparr>vm_addr = 20, vm_hide = True, vm_alpha = 1\<rparr>]\<rparr>))) \<and>
   removeVisualModel (visual_default\<lparr>vm :=
        [\<lparr>vm_addr = 10, vm_hide = False, vm_alpha = 1\<rparr>,
         \<lparr>vm_addr = 20, vm_hide = False, vm_alpha = 1\<rparr>,
         \<lparr>vm_addr = 20, vm_hide = True, vm_alpha = 1\<rparr>]\<rparr>) 7 =
     visual_default\<lparr>vm :=
        [\<lparr>vm_addr = 10, vm_hide = False, vm_alpha = 1\<rparr>,
         \<lparr>vm_addr = 20, vm_hide = False, vm_alpha = 1\<rparr>,
         \<lparr>vm_addr = 20, vm_hide = True, vm_alpha = 1\<rparr>]\<rparr> \<and>
   vm (removeVisualModel (visual_default\<lparr>vm :=
        [\<lparr>vm_addr = 10, vm_hide = False, vm_alpha = 1\<rparr>,
         \<lparr>vm_addr = 20, vm_hide = False, vm_alpha = 1\<rparr>,
         \<lparr>vm_addr = 20, vm_hide = True, vm_alpha = 1\<rparr>]\<rparr>) 20) =
        [\<lparr>vm_addr = 10, vm_hide = False, vm_alpha = 1\<rparr>,
         \<lparr>vm_addr = 20, vm_hide = True, vm_alpha = 1\<rparr>]"
proof -
  let ?s = "visual_default\<lparr>vm :=
        [\<lparr>vm_addr = 10, vm_hide = False, vm_alpha = 1\<rparr>,
         \<lparr>vm_addr = 20, vm_hide = False, vm_alpha = 1\<rparr>,
         \<lparr>vm_addr = 20, vm_hide = True, vm_alpha = 1\<rparr>]\<rparr>"
  have absent: "7 \<notin> vm_addr ` set (vm ?s)" by simp
  have owned: "20 \<in> vm_addr ` set (vm ?s)" by simp
  from removeVisualModel_first_match [of 7 ?s] absent
  have noop: "removeVisualModel ?s 7 = ?s" by blast
  from removeVisualModel_first_match [of 20 ?s] owned
  obtain pre x post where sp: "vm ?s = pre @ x # post" and xp: "vm_addr x = 20"
    and npre: "20 \<notin> vm_addr ` set pre" and r: "removeVisualModel ?s 20 = ?s\<lparr>vm := pre @ post\<rparr>"
    by blast
  have "pre = [\<lparr>vm_addr = 10, vm_hide = False, vm_alpha = 1\<rparr>] \<and>
        post = [\<lparr>vm_addr = 20, vm_hide = True, vm_alpha = 1\<rparr>]"
    using sp xp npre by (auto simp: append_eq_Cons_conv Cons_eq_append_conv)
  with r have "vm (removeVisualModel ?s 20) =
        [\<lparr>vm_addr = 10, vm_hide = False, vm_alpha = 1\<rparr>,
         \<lparr>vm_addr = 20, vm_hide = True, vm_alpha = 1\<rparr>]"
    by simp
  with absent noop show ?thesis by simp
qed

subsection \<open>saveImage\<close>

lemma opaque_row_loop_length [simp]:
  "length (opaque_row_loop bits w rl fl j rbits) = length rbits"
  by (induction bits w rl fl j rbits rule: opaque_row_loop.induct)
     (subst opaque_row_loop.simps, simp)

lemma copy_row_loop_length [simp]:
  "length (copy_row_loop bits w rl fl j rbits) = length rbits"
  by (induction bits w rl fl j rbits rule: copy_row_loop.induct)
     (subst copy_row_loop.simps, simp)

lemma image_loop_length [simp]:
  "length (image_loop tb bits w h i rbits) = length rbits"
  by (induction tb bits w h i rbits rule: image_loop.induct)
     (subst image_loop.simps, simp add: Let_def)

lemma opaque_row_loop_nth:
  "rl + 4 * w \<le> length rbits \<Longrightarrow> k < length rbits \<Longrightarrow>
   opaque_row_loop bits w rl fl j rbits ! k =
     (if rl + j \<le> k \<and> k < rl + 4 * w
      then (if (k - rl) mod 4 = 3 then 255 else bits ! (fl + (k - rl)))
      else rbits ! k)"
proof (induction bits w rl fl j rbits rule: opaque_row_loop.induct)
  case (1 bits w rl fl j rbits)
  show ?case
  proof (cases "j < 4 * w")
    case True
    have "opaque_row_loop bits w rl fl j rbits ! k =
          opaque_row_loop bits w rl fl (Suc j)
             (rbits[rl + j := (if j mod 4 = 3 then 255 else bits ! (fl + j))]) ! k"
      using True by (subst opaque_row_loop.simps) simp
    also have "\<dots> = (if rl + Suc j \<le> k \<and> k < rl + 4 * w
      then (if (k - rl) mod 4 = 3 then 255 else bits ! (fl + (k - rl)))
      else (rbits[rl + j := (if j mod 4 = 3 then 255 else bits ! (fl + j))]) ! k)"
      using "1.IH" [OF True] "1.prems" by simp
    finally show ?thesis
      using True "1.prems" by (auto simp: nth_list_update)
  next
    case False
    then show ?thesis
      by (subst opaque_row_loop.simps) auto
  qed
qed

lemma copy_row_loop_nth:
  "rl + 4 * w \<le> length rbits \<Longrightarrow> k < length rbits \<Longrightarrow>
   copy_row_loop bits w rl fl j rbits ! k =
     (if rl + j \<le> k \<and> k < rl + 4 * w then bits ! (fl + (k - rl)) else rbits ! k)"
proof (induction bits w rl fl j rbits rule: copy_row_loop.induct)
  case (1 bits w rl fl j rbits)
  show ?case
  proof (cases "j < 4 * w")
    case True
    have "copy_row_loop bits w rl fl j rbits ! k =
          copy_row_loop bits w rl fl (Suc j) (rbits[rl + j := bits ! (fl + j)]) ! k"
      using True by (subst copy_row_loop.simps) simp
    also have "\<dots> = (if rl + Suc j \<le> k \<and> k < rl + 4 * w
      then bits ! (fl + (k - rl))
      else (rbits[rl + j := bits ! (fl + j)]) ! k)"
      using "1.IH" [OF True] "1.prems" by simp
    finally show ?thesis
      using True "1.prems" by (auto simp: nth_list_update)
  next
    case False
    then show ?thesis
      by (subst copy_row_loop.simps) auto
  qed
qed

lemma row_range:
  fixes m q k :: nat
  assumes "0 < m"
  shows "(q * m \<le> k \<and> k < q * m + m) = (k div m = q)"
proof
  assume "q * m \<le> k \<and> k < q * m + m"
  then show "k div m = q"
    by (intro div_nat_eqI) (simp_all add: mult.commute)
next
  assume "k div m = q"
  then show "q * m \<le> k \<and> k < q * m + m"
    using assms dividend_less_div_times [of m k] div_times_less_eq_dividend [of k m]
    by (simp add: add.commute)
qed

lemma image_loop_nth:
  assumes len: "length rbits = 4 * w * h" and k: "k < length rbits" and ih: "i \<le> h"
  shows "image_loop tb bits w h i rbits ! k =
     (if k div (4 * w) + i < h then image_byte tb bits w h k else rbits ! k)"
  using len k ih
proof (induction tb bits w h i rbits rule: image_loop.induct)
  case (1 tb bits w h i rbits)
  have wpos: "0 < 4 * w" using "1.prems" by (cases w) auto
  show ?case
  proof (cases "i < h")
    case True
    let ?rl = "(h - i - 1) * 4 * w" and ?fl = "i * 4 * w"
    let ?R = "if tb then copy_row_loop bits w ?rl ?fl 0 rbits
              else opaque_row_loop bits w ?rl ?fl 0 rbits"
    have fits: "?rl + 4 * w \<le> length rbits"
    proof -
      have "(h - i - 1) + 1 \<le> h" using True by simp
      then have "((h - i - 1) + 1) * (4 * w) \<le> h * (4 * w)" by (rule mult_le_mono1)
      then show ?thesis using "1.prems"(1) by (simp add: algebra_simps)
    qed
    have inrow: "(?rl \<le> k \<and> k < ?rl + 4 * w) = (k div (4 * w) = h - i - 1)"
      using row_range [OF wpos, of "h - i - 1" k] by (simp add: mult.assoc)
    have Rk: "?R ! k = (if k div (4 * w) = h - i - 1
                then (if \<not> tb \<and> (k - ?rl) mod 4 = 3 then 255 else bits ! (?fl + (k - ?rl)))
                else rbits ! k)"
      using copy_row_loop_nth [OF fits "1.prems"(2), of bits ?fl 0]
            opaque_row_loop_nth [OF fits "1.prems"(2), of bits ?fl 0] inrow
      by auto
    have step: "image_loop tb bits w h i rbits = image_loop tb bits w h (Suc i) ?R"
      using True by (subst image_loop.simps) (simp add: Let_def)
    have IH: "image_loop tb bits w h (Suc i) ?R ! k =
        (if k div (4 * w) + Suc i < h then image_byte tb bits w h k else ?R ! k)"
      using "1.IH" [OF True refl refl] "1.prems" True by simp
    show ?thesis
    proof (cases "k div (4 * w) = h - i - 1")
      case row: True
      have krl: "k - ?rl = k mod (4 * w)"
        using row by (metis minus_mult_div_eq_mod mult.assoc mult.commute)
      have m4: "k mod (4 * w) mod 4 = k mod 4"
        by (simp add: mod_mod_cancel)
      have src: "h - 1 - k div (4 * w) = i" using row True by simp
      show ?thesis
        using step IH Rk row True krl m4 src
        by (simp add: image_byte_def mult.assoc)
    next
      case other: False
      then show ?thesis
        using step IH Rk True by auto
    qed
  next
    case False
    then show ?thesis
      by (subst image_loop.simps) simp
  qed
qed

lemma saveImage_rbits_nth:
  assumes "k < 4 * w * h"
  shows "fst (saveImage w h bits e tb) ! k = image_byte tb bits w h k"
proof -
  have wpos: "0 < 4 * w" using assms by (cases w) auto
  have "k < h * (4 * w)" using assms by (simp add: mult.commute)
  then have "k div (4 * w) < h" using wpos by (simp add: less_mult_imp_div_less)
  then show ?thesis
    using image_loop_nth [of "replicate (w * h * 4) 0" w h k 0 tb bits] assms
    by (simp add: saveImage_def Let_def mult.commute mult.left_commute)
qed

text \<open>
  C8. With \<open>transparent_bg = False\<close> the alpha byte of every pixel of the image data is
  255, so in particular that of every non-background pixel; with \<open>transparent_bg = True\<close>
  every byte of every captured row, its alpha included, is copied unchanged (the rows are
  stored in reverse order, top row first). The image data has \<open>4 * w * h\<close> bytes in both
  cases, and the returned dimensions are \<open>(w, h)\<close>, or \<open>(-1, -1)\<close> when the encoder
  reports an error.
\<close>

theorem saveImage_alpha:
  "(\<forall>p < w * h. fst (saveImage w h bits e False) ! (4 * p + 3) = 255) \<and>
   (\<forall>row < h. \<forall>j < 4 * w.
      fst (saveImage w h bits e True) ! ((h - 1 - row) * 4 * w + j) = bits ! (row * 4 * w + j)) \<and>
   length (fst (saveImage w h bits e tb)) = 4 * w * h \<and>
   snd (saveImage w h bits e tb) = (if e \<noteq> 0 then (- 1, - 1) else (int w, int h))"
proof (intro conjI allI impI)
  fix p assume "p < w * h"
  then have "4 * p + 3 < 4 * w * h" by simp
  then have "fst (saveImage w h bits e False) ! (4 * p + 3) = image_byte False bits w h (4 * p + 3)"
    by (rule saveImage_rbits_nth)
  also have "\<dots> = 255"
    by (simp add: image_byte_def mod_mult_self4 add.commute)
  finally show "fst (saveImage w h bits e False) ! (4 * p + 3) = 255" .
next
  fix row j assume row: "row < h" and j: "j < 4 * w"
  let ?k = "(h - 1 - row) * 4 * w + j"
  have "(h - 1 - row) + 1 \<le> h" using row by simp
  then have "((h - 1 - row) + 1) * (4 * w) \<le> h * (4 * w)" by (rule mult_le_mono1)
  then have k: "?k < 4 * w * h" using j by (simp add: algebra_simps)
  have d: "?k div (4 * w) = h - 1 - row" using j by (simp add: mult.assoc)
  have m: "?k mod (4 * w) = j" using j by (simp add: mult.assoc)
  have "fst (saveImage w h bits e True) ! ?k = image_byte True bits w h ?k"
    using k by (rule saveImage_rbits_nth)
  also have "\<dots> = bits ! ((h - 1 - (h - 1 - row)) * 4 * w + j)"
    unfolding image_byte_def d m by simp
  also have "h - 1 - (h - 1 - row) = row" using row by simp
  finally show "fst (saveImage w h bits e True) ! ?k = bits ! (row * 4 * w + j)" .
next
  show "length (fst (saveImage w h bits e tb)) = 4 * w * h"
    by (simp add: saveImage_def Let_def mult.commute mult.left_commute)
next
  show "snd (saveImage w h bits e tb) = (if e \<noteq> 0 then (- 1, - 1) else (int w, int h))"
    by (simp add: saveImage_def Let_def)
qed

theorem saveImage_alpha_witness:
  "fst (saveImage 1 2 [1, 2, 3, 4, 5, 6, 7, 8] 0 False) ! 3 = 255 \<and>
   fst (saveImage 1 2 [1, 2, 3, 4, 5, 6, 7, 8] 0 False) ! 7 = 255 \<and>
   fst (saveImage 1 2 [1, 2, 3, 4, 5, 6, 7, 8] 0 True) ! 3 = 8 \<and>
   fst (saveImage 1 2 [1, 2, 3, 4, 5, 6, 7, 8] 0 True) ! 7 = 4 \<and>
   snd (saveImage 1 2 [1, 2, 3, 4, 5, 6, 7, 8] 0 True) = (1, 2)"
proof -
  note th = saveImage_alpha [of 1 2 "[1, 2, 3, 4, 5, 6, 7, 8]" 0 True]
  from th have a: "\<forall>p < 1 * 2. fst (saveImage 1 2 [1, 2, 3, 4, 5, 6, 7, 8] 0 False) ! (4 * p + 3) = 255"
    by blast
  from th have b: "\<forall>row < 2. \<forall>j < 4 * 1.
      fst (saveImage 1 2 [1, 2, 3, 4, 5, 6, 7, 8] 0 True) ! ((2 - 1 - row) * 4 * 1 + j)
        = [1, 2, 3, 4, 5, 6, 7, 8 :: GLubyte] ! (row * 4 * 1 + j)"
    by blast
  from th have d: "snd (saveImage 1 2 [1, 2, 3, 4, 5, 6, 7, 8] 0 True) = (1, 2)"
    by simp
  from a [rule_format, of 0] a [rule_format, of 1]
  have a0: "fst (saveImage 1 2 [1, 2, 3, 4, 5, 6, 7, 8] 0 False) ! 3 = 255"
    and a1: "fst (saveImage 1 2 [1, 2, 3, 4, 5, 6, 7, 8] 0 False) ! 7 = 255" by simp_all
  from b [rule_format, of 1 3] b [rule_format, of 0 3]
  have b0: "fst (saveImage 1 2 [1, 2, 3, 4, 5, 6, 7, 8] 0 True) ! 3 = 8"
    and b1: "fst (saveImage 1 2 [1, 2, 3, 4, 5, 6, 7, 8] 0 True) ! 7 = 4" by simp_all
  show ?thesis using a0 a1 b0 b1 d by simp
qed

subsection \<open>key_callback\<close>

lemmas kc_defs = kc_quit_def kc_coord_arrows_def kc_help_def kc_scene_lock_def kc_save_image_def
  kc_save_gltf_def kc_write_json_def kc_select_model_def kc_toggle_hide_def kc_dec_alpha_def
  kc_inc_alpha_def kc_cyl_radius_up_def kc_cyl_radius_down_def kc_cyl_height_up_def
  kc_cyl_height_down_def kc_reset_view_def kc_fov_reduce_def kc_fov_increase_def
  kc_znear_reduce_def kc_znear_increase_def kc_cycle_ptype_def key_callback_extra_def
  pure_step_def

lemma key_callback_fov_reduce:
  assumes "\<not> sceneLocked s" "mods AND keymod_control \<noteq> 0"
  shows "key_callback owned s key_o scancode keyaction_press mods =
     Inr (False, log_io (s\<lparr>fov := (if fov s - 2 < 1 then 2 else fov s - 2)\<rparr>)
                   (Out_fov_reduced (if fov s - 2 < 1 then 2 else fov s - 2)))"
  using assms by (simp add: key_callback_def kc_defs key_defs Let_def log_io_def)

lemma key_callback_fov_increase:
  assumes "\<not> sceneLocked s" "mods AND keymod_control \<noteq> 0"
  shows "key_callback owned s key_p scancode keyaction_press mods =
     Inr (False, log_io (s\<lparr>fov := (if fov s + 2 > 179 then 178 else fov s + 2)\<rparr>)
                   (Out_fov_increased (if fov s + 2 > 179 then 178 else fov s + 2)))"
  using assms by (simp add: key_callback_def kc_defs key_defs Let_def log_io_def)

lemma key_callback_cycle:
  assumes "mods AND keymod_control \<noteq> 0"
  shows "key_callback owned s key_y scancode keyaction_press mods =
     Inr (True, s\<lparr>ptype := (case ptype s of perspective \<Rightarrow> orthographic
                               | orthographic \<Rightarrow> cylindrical | cylindrical \<Rightarrow> perspective)\<rparr>)"
  using assms by (cases "ptype s") (simp_all add: key_callback_def kc_defs key_defs Let_def log_io_def)

lemma t1: "key_callback True visual_default key_f1 0 keyaction_press keymod_shift =
     Inl (Vm_index_out_of_range 0 0)"
  by (simp add: key_callback_def kc_defs key_defs Let_def log_io_def vm_call_def visual_default_def)

lemma t2: "key_callback True visual_default key_o 0 keyaction_press keymod_control =
     Inr (False, visual_default\<lparr>fov := 28, io_log := [Out_fov_reduced 28]\<rparr>)"
  by (simp add: key_callback_def kc_defs key_defs Let_def log_io_def vm_call_def visual_default_def)

lemma fov_even_reduce:
  assumes "fov_even s"
  shows "fov_even (log_io (s\<lparr>fov := (if fov s - 2 < 1 then 2 else fov s - 2)\<rparr>) e)"
proof -
  from assms obtain k :: nat where k: "1 \<le> k" "k \<le> 89" "fov s = 2 * real k"
    by (auto simp: fov_even_def)
  show ?thesis
  proof (cases "k = 1")
    case True
    with k have "fov s - 2 < 1" by simp
    then show ?thesis
      unfolding fov_even_def log_io_def by (auto intro!: exI [of _ "1::nat"])
  next
    case False
    with k have k2: "2 \<le> k" by simp
    then have "\<not> fov s - 2 < 1" using k by simp
    moreover have "fov s - 2 = 2 * real (k - 1)" using k k2 by (simp add: of_nat_diff)
    ultimately show ?thesis
      unfolding fov_even_def log_io_def using k k2
      by (auto intro!: exI [of _ "k - 1"])
  qed
qed

lemma fov_even_increase:
  assumes "fov_even s"
  shows "fov_even (log_io (s\<lparr>fov := (if fov s + 2 > 179 then 178 else fov s + 2)\<rparr>) e)"
proof -
  from assms obtain k :: nat where k: "1 \<le> k" "k \<le> 89" "fov s = 2 * real k"
    by (auto simp: fov_even_def)
  show ?thesis
  proof (cases "k = 89")
    case True
    with k have "fov s + 2 > 179" by simp
    then show ?thesis
      unfolding fov_even_def log_io_def by (auto intro!: exI [of _ "89::nat"])
  next
    case False
    with k have k2: "k \<le> 88" by simp
    then have "\<not> fov s + 2 > 179" using k by simp
    moreover have "fov s + 2 = 2 * real (k + 1)" using k by simp
    ultimately show ?thesis
      unfolding fov_even_def log_io_def using k k2
      by (auto intro!: exI [of _ "k + 1"])
  qed
qed

lemma fov_even_bounds: "fov_even s \<Longrightarrow> 2 \<le> fov s \<and> fov s \<le> 178"
  by (auto simp: fov_even_def)

lemma key_events_fov_even:
  assumes "fov_even s" "\<not> sceneLocked s" "\<forall>e \<in> set es. fov_key_event e"
  shows "\<exists>s'. key_events owned s es = Inr s' \<and> fov_even s' \<and> \<not> sceneLocked s'"
  using assms
proof (induction es arbitrary: s)
  case Nil
  then show ?case by simp
next
  case (Cons e es)
  obtain key scancode action mods where e: "e = (key, scancode, action, mods)"
    by (cases e) auto
  from Cons.prems e have ev: "key = key_o \<or> key = key_p" "action = keyaction_press"
    "mods AND keymod_control \<noteq> 0"
    by (auto simp: fov_key_event_def)
  from ev(1) obtain s1 where
    s1: "key_callback owned s key scancode action mods = Inr (False, s1)"
    and inv1: "fov_even s1" and ul1: "\<not> sceneLocked s1"
  proof
    assume "key = key_o"
    then show ?thesis
      using that key_callback_fov_reduce [OF Cons.prems(2) ev(3)] fov_even_reduce [OF Cons.prems(1)]
        Cons.prems(2) ev(2) by (simp add: log_io_def)
  next
    assume "key = key_p"
    then show ?thesis
      using that key_callback_fov_increase [OF Cons.prems(2) ev(3)] fov_even_increase [OF Cons.prems(1)]
        Cons.prems(2) ev(2) by (simp add: log_io_def)
  qed
  from Cons.IH [OF inv1 ul1] Cons.prems(3)
  obtain s' where "key_events owned s1 es = Inr s'" "fov_even s'" "\<not> sceneLocked s'"
    by auto
  then show ?case using s1 e by auto
qed

lemma key_events_fov_reduce_n:
  assumes "\<not> sceneLocked s" "fov s = 2 * real k" "1 \<le> k" "mods AND keymod_control \<noteq> 0"
  shows "\<exists>s'. key_events owned s (replicate n (key_o, scancode, keyaction_press, mods)) = Inr s'
           \<and> fov s' = 2 * real (max 1 (k - n)) \<and> \<not> sceneLocked s'"
  using assms(1-3)
proof (induction n arbitrary: s k)
  case 0
  then show ?case by (simp add: max_def)
next
  case (Suc n)
  let ?s1 = "log_io (s\<lparr>fov := (if fov s - 2 < 1 then 2 else fov s - 2)\<rparr>)
                   (Out_fov_reduced (if fov s - 2 < 1 then 2 else fov s - 2))"
  have step: "key_callback owned s key_o scancode keyaction_press mods = Inr (False, ?s1)"
    by (rule key_callback_fov_reduce [OF Suc.prems(1) assms(4)])
  have ul: "\<not> sceneLocked ?s1" using Suc.prems(1) by (simp add: log_io_def)
  have f1: "fov ?s1 = 2 * real (max 1 (k - 1))"
  proof (cases "k = 1")
    case True
    then show ?thesis using Suc.prems by (simp add: log_io_def)
  next
    case False
    with Suc.prems have k2: "2 \<le> k" by simp
    then have nlt: "\<not> fov s - 2 < 1" using Suc.prems by simp
    have mx: "max 1 (k - 1) = k - 1" using k2 by simp
    have "fov s - 2 = 2 * real (k - 1)" using Suc.prems k2 by (simp add: of_nat_diff)
    then show ?thesis unfolding mx using nlt by (simp add: log_io_def)
  qed
  have "1 \<le> max 1 (k - 1)" by simp
  from Suc.IH [OF ul f1 this]
  obtain s' where r: "key_events owned ?s1 (replicate n (key_o, scancode, keyaction_press, mods)) = Inr s'"
    and f: "fov s' = 2 * real (max 1 (max 1 (k - 1) - n))" and u: "\<not> sceneLocked s'"
    by auto
  have "max 1 (max 1 (k - 1) - n) = max 1 (k - Suc n)" by arith
  with r f u step show ?case by simp
qed

text \<open>
  C2. From a field of view of 30 degrees (the default) and an unlocked scene, after every
  event of any sequence of Ctrl-o and Ctrl-p presses the handler has returned and \<open>fov\<close>
  lies in [2, 178]; twenty Ctrl-o presses leave \<open>fov\<close> at exactly 2. On this run every
  value of \<open>fov\<close> is an even whole number up to 180, which \<^verbatim>\<open>float\<close> represents exactly, so
  the real arithmetic of the model is the arithmetic of the source.
\<close>

theorem fov_stays_in_range:
  assumes "fov s = 30" "\<not> sceneLocked s" "\<forall>e \<in> set es. fov_key_event e"
  shows "(\<forall>n \<le> length es. \<exists>s'. key_events owned s (take n es) = Inr s' \<and> 2 \<le> fov s' \<and> fov s' \<le> 178) \<and>
         (\<exists>s'. key_events owned s (replicate 20 (key_o, scancode, keyaction_press, keymod_control)) = Inr s'
            \<and> fov s' = 2)"
proof (intro conjI allI impI)
  have inv: "fov_even s" using assms(1) by (auto simp: fov_even_def intro!: exI [of _ "15::nat"])
  fix n assume "n \<le> length es"
  have "\<forall>e \<in> set (take n es). fov_key_event e"
    using assms(3) by (meson in_set_takeD)
  from key_events_fov_even [OF inv assms(2) this]
  show "\<exists>s'. key_events owned s (take n es) = Inr s' \<and> 2 \<le> fov s' \<and> fov s' \<le> 178"
    using fov_even_bounds by blast
next
  have f: "fov s = 2 * real (15::nat)" using assms(1) by simp
  have c: "keymod_control AND keymod_control \<noteq> 0" by (simp add: keymod_control_def)
  from key_events_fov_reduce_n [OF assms(2) f _ c, of owned 20 scancode]
  show "\<exists>s'. key_events owned s (replicate 20 (key_o, scancode, keyaction_press, keymod_control)) = Inr s'
            \<and> fov s' = 2"
    by auto
qed

theorem fov_stays_in_range_witness:
  "fov visual_default = 30 \<and> \<not> sceneLocked visual_default \<and>
   (\<exists>s'. key_events True visual_default
            [(key_p, 0 :: int, keyaction_press, keymod_control), (key_o, 0, keyaction_press, 3 :: int),
             (key_o, 0, keyaction_press, keymod_control)] = Inr s' \<and> 2 \<le> fov s' \<and> fov s' \<le> 178) \<and>
   (\<exists>s'. key_events True visual_default
            (replicate 20 (key_o, 0, keyaction_press, keymod_control)) = Inr s' \<and> fov s' = 2)"
proof -
  let ?es = "[(key_p, 0 :: int, keyaction_press, keymod_control), (key_o, 0, keyaction_press, 3 :: int),
             (key_o, 0, keyaction_press, keymod_control)]"
  have a: "fov visual_default = 30" and b: "\<not> sceneLocked visual_default"
    by (simp_all add: visual_default_def)
  have c: "\<forall>e \<in> set ?es. fov_key_event e"
    by (simp add: fov_key_event_def key_defs)
  note th = fov_stays_in_range [where owned = True and scancode = 0, OF a b c]
  have p: "\<forall>n \<le> length ?es. \<exists>s'. key_events True visual_default (take n ?es) = Inr s' \<and> 2 \<le> fov s' \<and> fov s' \<le> 178"
    by (rule conjunct1 [OF th])
  have d: "\<exists>s'. key_events True visual_default
            (replicate 20 (key_o, 0, keyaction_press, keymod_control)) = Inr s' \<and> fov s' = 2"
    by (rule conjunct2 [OF th])
  have "length ?es \<le> length ?es" by simp
  from p [rule_format, OF this]
  have e: "\<exists>s'. key_events True visual_default ?es = Inr s' \<and> 2 \<le> fov s' \<and> fov s' \<le> 178"
    by simp
  show ?thesis
    by (intro conjI a b d e)
qed

text \<open>
  C9. Three presses of Ctrl-y in succession (whatever the other modifiers and the
  scancodes) return, and they leave the projection type, indeed the whole object, as it
  was, for every starting value of \<open>ptype\<close>.
\<close>

theorem ptype_cycle_three:
  assumes "m1 AND keymod_control \<noteq> 0" "m2 AND keymod_control \<noteq> 0" "m3 AND keymod_control \<noteq> 0"
  shows "\<exists>s'. key_events owned s
           [(key_y, sc1, keyaction_press, m1), (key_y, sc2, keyaction_press, m2),
            (key_y, sc3, keyaction_press, m3)] = Inr s' \<and> ptype s' = ptype s \<and> s' = s"
  using assms by (cases "ptype s") (simp_all add: key_callback_cycle)

theorem ptype_cycle_three_witness:
  "keymod_control AND keymod_control \<noteq> 0 \<and>
   key_events True visual_default
           [(key_y, 0, keyaction_press, keymod_control), (key_y, 0, keyaction_press, keymod_control),
            (key_y, 0, keyaction_press, keymod_control)] = Inr visual_default \<and>
   key_events True (visual_default\<lparr>ptype := orthographic\<rparr>)
           [(key_y, 0, keyaction_press, keymod_control), (key_y, 0, keyaction_press, keymod_control),
            (key_y, 0, keyaction_press, keymod_control)] = Inr (visual_default\<lparr>ptype := orthographic\<rparr>) \<and>
   key_events True (visual_default\<lparr>ptype := cylindrical\<rparr>)
           [(key_y, 0, keyaction_press, keymod_control), (key_y, 0, keyaction_press, keymod_control),
            (key_y, 0, keyaction_press, keymod_control)] = Inr (visual_default\<lparr>ptype := cylindrical\<rparr>)"
proof -
  have c: "keymod_control AND keymod_control \<noteq> 0" by (simp add: keymod_control_def)
  have p: "key_events True s
           [(key_y, 0, keyaction_press, keymod_control), (key_y, 0, keyaction_press, keymod_control),
            (key_y, 0, keyaction_press, keymod_control)] = Inr s" for s
  proof -
    from ptype_cycle_three [OF c c c, of True s 0 0 0]
    obtain s' where "key_events True s
           [(key_y, 0, keyaction_press, keymod_control), (key_y, 0, keyaction_press, keymod_control),
            (key_y, 0, keyaction_press, keymod_control)] = Inr s'" and "s' = s"
      by blast
    then show ?thesis by simp
  qed
  show ?thesis
    by (intro conjI c p)
qed

text \<open>
  The guarded half of the alpha and hide handling: on an empty registry Shift-Left and
  Shift-Right return without touching the object.
\<close>

lemma key_callback_alpha_empty_registry:
  assumes "vm s = []" "key = key_left \<or> key = key_right"
  shows "key_callback owned s key scancode action mods = Inr (False, s)"
proof -
  from assms(2) show ?thesis
  proof
    assume "key = key_left"
    then show ?thesis using assms(1) by (simp add: key_callback_def kc_defs key_defs)
  next
    assume "key = key_right"
    then show ?thesis using assms(1) by (simp add: key_callback_def kc_defs key_defs)
  qed
qed

text \<open>
  C3. The hide toggle is not guarded: on the default object, whose registry is empty,
  a press of F1 with Shift held reaches \<^verbatim>\<open>this->vm[0]->toggleHide()\<close>, an access past the
  end of the empty vector, instead of returning as a no-op.
\<close>

theorem hide_toggle_empty_registry_fails:
  "vm visual_default = [] \<and>
   key_callback True visual_default key_f1 0 keyaction_press keymod_shift
     = Inl (Vm_index_out_of_range 0 0)"
  by (simp add: key_callback_def kc_defs key_defs Let_def log_io_def vm_call_def visual_default_def)

text \<open>
  C5. On the default object a press of Ctrl-o changes the field of view from 30 to 28 and
  the handler returns \<open>False\<close>; a press of Ctrl-y, which changes the projection type,
  returns \<open>True\<close>.
\<close>

theorem fov_change_returns_false:
  "key_callback True visual_default key_o 0 keyaction_press keymod_control
     = Inr (False, visual_default\<lparr>fov := 28, io_log := [Out_fov_reduced 28]\<rparr>) \<and>
   fov visual_default = 30 \<and>
   key_callback True visual_default key_y 0 keyaction_press keymod_control
     = Inr (True, visual_default\<lparr>ptype := orthographic\<rparr>)"
  by (simp add: key_callback_def kc_defs key_defs Let_def log_io_def vm_call_def visual_default_def)

lemma vm_call_selected:
  "vm_call s i f = Inr s1 \<Longrightarrow> selectedVisualModel s1 = selectedVisualModel s"
  by (auto simp: vm_call_def split: if_splits)





subsection \<open>scroll_callback\<close>

lemma scroll_callback_orthographic:
  assumes "ptype s = orthographic" "\<not> sceneLocked s"
  shows "scroll_callback L s xoffset yoffset =
     (True, if ortho_bounds_ok (ortho_rescaled s yoffset) then ortho_rescaled s yoffset else s)"
  using assms
  by (simp add: scroll_callback_def Let_def ortho_bounds_ok_def ortho_rescaled_def
      vec2_lt_scalar_def vec2_gt_scalar_def vec2_add_scalar_def vec2_sub_scalar_def)

lemma scroll_events_snoc:
  "scroll_events L s (es @ [(xoffset, yoffset)]) =
     snd (scroll_callback L (scroll_events L s es) xoffset yoffset)"
  by (induction es arbitrary: s) auto

lemma scroll_events_orthographic:
  assumes "ptype s = orthographic" "\<not> sceneLocked s"
  shows "ptype (scroll_events L s es) = orthographic \<and> \<not> sceneLocked (scroll_events L s es)
         \<and> (ortho_bounds_ok s \<longrightarrow> ortho_bounds_ok (scroll_events L s es))"
  using assms
proof (induction es arbitrary: s)
  case Nil
  then show ?case by simp
next
  case (Cons e es)
  obtain x y where e: "e = (x, y)" by (cases e)
  let ?s1 = "snd (scroll_callback L s x y)"
  have s1: "?s1 = (if ortho_bounds_ok (ortho_rescaled s y) then ortho_rescaled s y else s)"
    using scroll_callback_orthographic [OF Cons.prems] by simp
  have p: "ptype ?s1 = orthographic" and l: "\<not> sceneLocked ?s1"
    using Cons.prems unfolding s1 by (simp_all add: ortho_rescaled_def)
  have ok: "ortho_bounds_ok s \<longrightarrow> ortho_bounds_ok ?s1"
    unfolding s1 by simp
  from Cons.IH [OF p l] ok e show ?case by simp
qed

text \<open>
  C1. Let the projection be orthographic and the scene unlocked. For every sequence of
  scroll events and each of its events: if the bounds satisfied
  \<open>ortho_lb < 0 < ortho_rt\<close> in every component before the sequence, as the constructor's
  bounds do, they satisfy it after the event; an event whose proposed bounds would violate
  the invariant leaves the whole object as it was before the event; any other event
  installs the proposed bounds, which satisfy the invariant whatever the bounds were
  before. The proof uses the guard of the source only, not the arithmetic that computes
  the proposed bounds, so it does not depend on reading \<^verbatim>\<open>float\<close> as \<open>real\<close>.
\<close>

theorem ortho_zoom_keeps_bounds:
  assumes "ptype s = orthographic" "\<not> sceneLocked s"
  shows "\<forall>n < length es.
           (ortho_bounds_ok s \<longrightarrow> ortho_bounds_ok (scroll_events L s (take (Suc n) es))) \<and>
           (\<not> ortho_bounds_ok (ortho_rescaled (scroll_events L s (take n es)) (snd (es ! n))) \<longrightarrow>
              scroll_events L s (take (Suc n) es) = scroll_events L s (take n es)) \<and>
           (ortho_bounds_ok (ortho_rescaled (scroll_events L s (take n es)) (snd (es ! n))) \<longrightarrow>
              scroll_events L s (take (Suc n) es)
                = ortho_rescaled (scroll_events L s (take n es)) (snd (es ! n)) \<and>
              ortho_bounds_ok (scroll_events L s (take (Suc n) es)))"
proof (intro allI impI)
  fix n assume n: "n < length es"
  let ?t = "scroll_events L s (take n es)"
  obtain x y where e: "es ! n = (x, y)" by (cases "es ! n")
  have inv: "ptype ?t = orthographic" "\<not> sceneLocked ?t"
    using scroll_events_orthographic [OF assms(1,2)] by simp_all
  have step: "scroll_events L s (take (Suc n) es) = snd (scroll_callback L ?t x y)"
    using n e by (simp add: take_Suc_conv_app_nth scroll_events_snoc)
  have "ortho_bounds_ok s \<longrightarrow> ortho_bounds_ok (scroll_events L s (take (Suc n) es))"
    using scroll_events_orthographic [OF assms(1,2)] by simp
  then show "(ortho_bounds_ok s \<longrightarrow> ortho_bounds_ok (scroll_events L s (take (Suc n) es))) \<and>
           (\<not> ortho_bounds_ok (ortho_rescaled ?t (snd (es ! n))) \<longrightarrow>
              scroll_events L s (take (Suc n) es) = ?t) \<and>
           (ortho_bounds_ok (ortho_rescaled ?t (snd (es ! n))) \<longrightarrow>
              scroll_events L s (take (Suc n) es) = ortho_rescaled ?t (snd (es ! n)) \<and>
              ortho_bounds_ok (scroll_events L s (take (Suc n) es)))"
    using step e scroll_callback_orthographic [OF inv] by simp
qed

theorem ortho_zoom_keeps_bounds_witness:
  "ptype (visual_default\<lparr>ptype := orthographic\<rparr>) = orthographic \<and>
   \<not> sceneLocked (visual_default\<lparr>ptype := orthographic\<rparr>) \<and>
   ortho_bounds_ok (visual_default\<lparr>ptype := orthographic\<rparr>) \<and>
   (\<forall>L. scroll_events L (visual_default\<lparr>ptype := orthographic\<rparr>) [(0, 1)]
          = visual_default\<lparr>ptype := orthographic,
               ortho_lb := \<lparr>v2x = - 12 / 10, v2y = - 9 / 10\<rparr>,
               ortho_rt := \<lparr>v2x = 12 / 10, v2y = 9 / 10\<rparr>\<rparr> \<and>
        ortho_bounds_ok (scroll_events L (visual_default\<lparr>ptype := orthographic\<rparr>) [(0, 1)]) \<and>
        \<not> ortho_bounds_ok (ortho_rescaled
             (scroll_events L (visual_default\<lparr>ptype := orthographic\<rparr>) [(0, 1)]) 20) \<and>
        scroll_events L (visual_default\<lparr>ptype := orthographic\<rparr>) [(0, 1), (0, 20)]
          = scroll_events L (visual_default\<lparr>ptype := orthographic\<rparr>) [(0, 1)])"
proof -
  let ?s = "visual_default\<lparr>ptype := orthographic\<rparr>"
  let ?es = "[(0 :: real, 1 :: real), (0, 20)]"
  have a: "ptype ?s = orthographic" and b: "\<not> sceneLocked ?s" and c: "ortho_bounds_ok ?s"
    by (simp_all add: visual_default_def ortho_bounds_ok_def)
  have main: "scroll_events L ?s [(0, 1)]
          = visual_default\<lparr>ptype := orthographic,
               ortho_lb := \<lparr>v2x = - 12 / 10, v2y = - 9 / 10\<rparr>,
               ortho_rt := \<lparr>v2x = 12 / 10, v2y = 9 / 10\<rparr>\<rparr> \<and>
        ortho_bounds_ok (scroll_events L ?s [(0, 1)]) \<and>
        \<not> ortho_bounds_ok (ortho_rescaled (scroll_events L ?s [(0, 1)]) 20) \<and>
        scroll_events L ?s [(0, 1), (0, 20)] = scroll_events L ?s [(0, 1)]" for L
  proof -
    note th = ortho_zoom_keeps_bounds [OF a b, of ?es L]
    have r0: "ortho_bounds_ok (ortho_rescaled ?s 1)"
      by (simp add: visual_default_def ortho_bounds_ok_def ortho_rescaled_def)
    from th [rule_format, of 0] r0 c
    have ok1: "ortho_bounds_ok (scroll_events L ?s [(0, 1)])"
      and e1: "scroll_events L ?s [(0, 1)] = ortho_rescaled ?s 1"
      by simp_all
    have v1: "ortho_rescaled ?s 1 = visual_default\<lparr>ptype := orthographic,
               ortho_lb := \<lparr>v2x = - 12 / 10, v2y = - 9 / 10\<rparr>,
               ortho_rt := \<lparr>v2x = 12 / 10, v2y = 9 / 10\<rparr>\<rparr>"
      by (simp add: visual_default_def ortho_rescaled_def)
    have r1: "\<not> ortho_bounds_ok (ortho_rescaled (scroll_events L ?s [(0, 1)]) 20)"
      unfolding e1 v1 by (simp add: visual_default_def ortho_bounds_ok_def ortho_rescaled_def)
    from th [rule_format, of 1] r1
    have e2: "scroll_events L ?s [(0, 1), (0, 20)] = scroll_events L ?s [(0, 1)]"
      by (simp add: numeral_2_eq_2)
    show ?thesis using ok1 e1 v1 r1 e2 by simp
  qed
  show ?thesis using a b c main by blast
qed

subsection \<open>Mouse gestures on a locked scene\<close>

lemma mouse_button_callback_locked:
  "sceneLocked s \<Longrightarrow> mouse_button_callback L s button action mods = s"
  by (simp add: mouse_button_callback_def)

lemma cursor_position_callback_frame:
  "rotateMode (snd (cursor_position_callback L s x y)) = rotateMode s \<and>
   translateMode (snd (cursor_position_callback L s x y)) = translateMode s \<and>
   sceneLocked (snd (cursor_position_callback L s x y)) = sceneLocked s \<and>
   cursorpos (snd (cursor_position_callback L s x y)) = \<lparr>v2x = x, v2y = y\<rparr>"
  by (simp add: cursor_position_callback_def Let_def)

lemma cursor_position_callback_no_translate:
  assumes "rotateMode s \<or> \<not> translateMode s"
  shows "scenetrans (snd (cursor_position_callback L s x y)) = scenetrans s \<and>
         cyl_cam_pos (snd (cursor_position_callback L s x y)) = cyl_cam_pos s"
  using assms by (auto simp: cursor_position_callback_def Let_def)

lemma cursor_moves_no_translate:
  assumes "rotateMode s \<or> \<not> translateMode s"
  shows "scenetrans (cursor_moves L s ps) = scenetrans s \<and>
         cyl_cam_pos (cursor_moves L s ps) = cyl_cam_pos s \<and>
         (ps \<noteq> [] \<longrightarrow> cursorpos (cursor_moves L s ps) = \<lparr>v2x = fst (last ps), v2y = snd (last ps)\<rparr>)"
  using assms
proof (induction ps arbitrary: s)
  case Nil
  then show ?case by simp
next
  case (Cons p ps)
  obtain x y where p: "p = (x, y)" by (cases p)
  let ?s1 = "snd (cursor_position_callback L s x y)"
  have m: "rotateMode ?s1 \<or> \<not> translateMode ?s1"
    using Cons.prems cursor_position_callback_frame [of L s x y] by simp
  have f: "scenetrans ?s1 = scenetrans s" "cyl_cam_pos ?s1 = cyl_cam_pos s"
    using cursor_position_callback_no_translate [OF Cons.prems, of L x y] by simp_all
  have c: "cursorpos ?s1 = \<lparr>v2x = x, v2y = y\<rparr>"
    using cursor_position_callback_frame [of L s x y] by simp
  from Cons.IH [OF m] f c p show ?case by (cases ps) auto
qed

text \<open>
  The case in which no translation is in progress when the gesture begins
  (\<open>translateMode\<close> is false, or \<open>rotateMode\<close> is true and takes precedence): on a locked
  scene the button event changes nothing, and no sequence of cursor moves changes
  \<open>scenetrans\<close> or \<open>cyl_cam_pos\<close>, while \<open>cursorpos\<close> is the last position.
\<close>

lemma locked_gesture_leaves_translation:
  assumes "sceneLocked s" "rotateMode s \<or> \<not> translateMode s"
  shows "scenetrans (cursor_moves L (mouse_button_callback L s button action mods) ps) = scenetrans s \<and>
         cyl_cam_pos (cursor_moves L (mouse_button_callback L s button action mods) ps) = cyl_cam_pos s \<and>
         (ps \<noteq> [] \<longrightarrow> cursorpos (cursor_moves L (mouse_button_callback L s button action mods) ps)
                          = \<lparr>v2x = fst (last ps), v2y = snd (last ps)\<rparr>)"
  using cursor_moves_no_translate [OF assms(2), of L ps] mouse_button_callback_locked [OF assms(1)]
  by simp

lemma drag_then_lock_eval:
  "drag_then_lock L = visual_default
     \<lparr>scene := mat44_rotate L mat44_identity quaternion_default,
       invscene := mat44_invert L (mat44_rotate L mat44_identity quaternion_default),
       translateMode := True, sceneLocked := True, io_log := [Out_scene_locked True]\<rparr>"
  by (simp add: drag_then_lock_def mouse_button_callback_def mouse_button_callback_extra_def
      key_callback_def kc_defs key_defs Let_def log_io_def visual_default_def)

text \<open>
  In translate mode a cursor move asks for a render and adds the unprojected horizontal
  movement of the cursor to \<open>scenetrans\<close>, whatever the projection matrices are and
  whether or not the scene is locked.
\<close>

lemma cursor_position_callback_translates_when_locked:
  assumes "translateMode s" "\<not> rotateMode s"
  shows "fst (cursor_position_callback L s x y) = True \<and>
   v3x (scenetrans (snd (cursor_position_callback L s x y))) =
     v3x (scenetrans s)
     + (v4x (mat44_mul_vec4 (invproj s)
              \<lparr>v4x = v2x (to_unit_range s \<lparr>v2x = x, v2y = y\<rparr>),
               v4y = v2y (to_unit_range s \<lparr>v2x = x, v2y = y\<rparr>), v4z = coord_z_of s, v4w = 1\<rparr>)
        / v4w (mat44_mul_vec4 (invproj s)
              \<lparr>v4x = v2x (to_unit_range s \<lparr>v2x = x, v2y = y\<rparr>),
               v4y = v2y (to_unit_range s \<lparr>v2x = x, v2y = y\<rparr>), v4z = coord_z_of s, v4w = 1\<rparr>)
        - v4x (mat44_mul_vec4 (invproj s)
              \<lparr>v4x = v2x (to_unit_range s (mousePressPosition s)),
               v4y = v2y (to_unit_range s (mousePressPosition s)), v4z = coord_z_of s, v4w = 1\<rparr>)
        / v4w (mat44_mul_vec4 (invproj s)
              \<lparr>v4x = v2x (to_unit_range s (mousePressPosition s)),
               v4y = v2y (to_unit_range s (mousePressPosition s)), v4z = coord_z_of s, v4w = 1\<rparr>))"
  using assms
  by (simp add: cursor_position_callback_def Let_def to_unit_range_def coord_z_of_def)

text \<open>
  C7. A locked scene ignores button releases as well as presses, so locking the scene
  during a translate drag leaves \<open>translateMode\<close> set, and the handler for cursor moves
  does not read \<open>sceneLocked\<close>. In the object \<open>drag_then_lock\<close> the scene is locked; the
  press that begins a translate gesture is ignored; the cursor move to (320, 0) that
  follows asks for a render and moves \<open>scenetrans\<close> from (0, 0, -5) to (1, 0, -5) and
  \<open>cyl_cam_pos\<close> from (0, 0, 0, 1) to (-1, 0, 0, 1). The projection matrices are those of
  the constructor, the identity.
\<close>

theorem locked_scene_translates_after_drag_then_lock:
  "sceneLocked (drag_then_lock L) \<and>
   mouse_button_callback L (drag_then_lock L) mousebutton_right keyaction_press 0 = drag_then_lock L \<and>
   scenetrans (drag_then_lock L) = \<lparr>v3x = 0, v3y = 0, v3z = - 5\<rparr> \<and>
   cyl_cam_pos (drag_then_lock L) = \<lparr>v4x = 0, v4y = 0, v4z = 0, v4w = 1\<rparr> \<and>
   fst (cursor_position_callback L
          (mouse_button_callback L (drag_then_lock L) mousebutton_right keyaction_press 0) 320 0) = True \<and>
   scenetrans (snd (cursor_position_callback L
          (mouse_button_callback L (drag_then_lock L) mousebutton_right keyaction_press 0) 320 0))
     = \<lparr>v3x = 1, v3y = 0, v3z = - 5\<rparr> \<and>
   cyl_cam_pos (snd (cursor_position_callback L
          (mouse_button_callback L (drag_then_lock L) mousebutton_right keyaction_press 0) 320 0))
     = \<lparr>v4x = - 1, v4y = 0, v4z = 0, v4w = 1\<rparr>"
  unfolding drag_then_lock_eval
  by (simp add: mouse_button_callback_def cursor_position_callback_def Let_def
      to_unit_range_def coord_z_of_def mat44_mul_vec4_def mat44_identity_def
      vec2_sub_scalar_def vec2_div_scalar_def visual_default_def zDefault_def)

subsection \<open>init_gl: reading the saved scene transform\<close>

lemma read_field_readable:
  "field_readable vconf k \<Longrightarrow> read_field vconf k old = Inr (field_or vconf k old)"
  by (auto simp: field_readable_def read_field_def field_or_def json_contains_def
           split: option.splits sum.splits)

lemma read_field_unreadable:
  "\<not> field_readable vconf k \<Longrightarrow> read_field vconf k old = Inl Json_type_error"
  by (auto simp: field_readable_def read_field_def json_contains_def json_get_float_def
           split: option.splits sum.splits json.splits)

lemma assign_from_Inr: "assign_from (Inr v) store = Inr (store v)"
  by (simp add: assign_from_def)

lemma assign_from_Inl: "assign_from (Inl e) store = Inl e"
  by (simp add: assign_from_def)

lemma init_gl_read_config_all_readable:
  assumes "snapshot_well_formed vconf"
  shows "init_gl_read_config (Some vconf) s =
     s\<lparr>scenetrans := \<lparr>v3x = field_or vconf ''scenetrans_x'' (v3x (scenetrans s)),
                       v3y = field_or vconf ''scenetrans_y'' (v3y (scenetrans s)),
                       v3z = field_or vconf ''scenetrans_z'' (v3z (scenetrans s))\<rparr>,
       scenetrans_default := \<lparr>v3x = field_or vconf ''scenetrans_x'' (v3x (scenetrans s)),
                       v3y = field_or vconf ''scenetrans_y'' (v3y (scenetrans s)),
                       v3z = field_or vconf ''scenetrans_z'' (v3z (scenetrans s))\<rparr>,
       rotation := \<lparr>qw = field_or vconf ''scenerotn_w'' (qw (rotation s)),
                     qx = field_or vconf ''scenerotn_x'' (qx (rotation s)),
                     qy = field_or vconf ''scenerotn_y'' (qy (rotation s)),
                     qz = field_or vconf ''scenerotn_z'' (qz (rotation s))\<rparr>\<rparr>"
proof -
  from assms have r: "field_readable vconf ''scenetrans_x''" "field_readable vconf ''scenetrans_y''"
    "field_readable vconf ''scenetrans_z''" "field_readable vconf ''scenerotn_w''"
    "field_readable vconf ''scenerotn_x''" "field_readable vconf ''scenerotn_y''"
    "field_readable vconf ''scenerotn_z''"
    by (simp_all add: snapshot_well_formed_def snapshot_fields_def)
  show ?thesis
    by (simp add: init_gl_read_config_def read_field_readable [OF r(1)] read_field_readable [OF r(2)]
        read_field_readable [OF r(3)] read_field_readable [OF r(4)] read_field_readable [OF r(5)]
        read_field_readable [OF r(6)] read_field_readable [OF r(7)] assign_from_Inr)
qed

text \<open>
  The effect of the block in terms of the readable prefix: the block stops at the first
  field that is present and that \<^verbatim>\<open>get<float>()\<close> does not convert, and keeps what the
  statements before it assigned.
\<close>

lemma init_gl_read_config_prefix:
  "init_gl_read_config None s = s \<and>
   (snapshot_well_formed vconf \<longrightarrow>
      init_gl_read_config (Some vconf) s =
        s\<lparr>scenetrans := \<lparr>v3x = field_or vconf ''scenetrans_x'' (v3x (scenetrans s)),
                          v3y = field_or vconf ''scenetrans_y'' (v3y (scenetrans s)),
                          v3z = field_or vconf ''scenetrans_z'' (v3z (scenetrans s))\<rparr>,
          scenetrans_default := \<lparr>v3x = field_or vconf ''scenetrans_x'' (v3x (scenetrans s)),
                          v3y = field_or vconf ''scenetrans_y'' (v3y (scenetrans s)),
                          v3z = field_or vconf ''scenetrans_z'' (v3z (scenetrans s))\<rparr>,
          rotation := \<lparr>qw = field_or vconf ''scenerotn_w'' (qw (rotation s)),
                        qx = field_or vconf ''scenerotn_x'' (qx (rotation s)),
                        qy = field_or vconf ''scenerotn_y'' (qy (rotation s)),
                        qz = field_or vconf ''scenerotn_z'' (qz (rotation s))\<rparr>\<rparr>) \<and>
   init_gl_read_config (Some vconf) s =
     s\<lparr>scenetrans :=
         \<lparr>v3x = (if ''scenetrans_x'' \<in> set (readable_prefix vconf)
                  then field_or vconf ''scenetrans_x'' (v3x (scenetrans s)) else v3x (scenetrans s)),
          v3y = (if ''scenetrans_y'' \<in> set (readable_prefix vconf)
                  then field_or vconf ''scenetrans_y'' (v3y (scenetrans s)) else v3y (scenetrans s)),
          v3z = (if ''scenetrans_z'' \<in> set (readable_prefix vconf)
                  then field_or vconf ''scenetrans_z'' (v3z (scenetrans s)) else v3z (scenetrans s))\<rparr>,
       scenetrans_default :=
         (if ''scenetrans_z'' \<in> set (readable_prefix vconf)
          then \<lparr>v3x = field_or vconf ''scenetrans_x'' (v3x (scenetrans s)),
                v3y = field_or vconf ''scenetrans_y'' (v3y (scenetrans s)),
                v3z = field_or vconf ''scenetrans_z'' (v3z (scenetrans s))\<rparr>
          else scenetrans_default s),
       rotation :=
         \<lparr>qw = (if ''scenerotn_w'' \<in> set (readable_prefix vconf)
                 then field_or vconf ''scenerotn_w'' (qw (rotation s)) else qw (rotation s)),
          qx = (if ''scenerotn_x'' \<in> set (readable_prefix vconf)
                 then field_or vconf ''scenerotn_x'' (qx (rotation s)) else qx (rotation s)),
          qy = (if ''scenerotn_y'' \<in> set (readable_prefix vconf)
                 then field_or vconf ''scenerotn_y'' (qy (rotation s)) else qy (rotation s)),
          qz = (if ''scenerotn_z'' \<in> set (readable_prefix vconf)
                 then field_or vconf ''scenerotn_z'' (qz (rotation s)) else qz (rotation s))\<rparr>\<rparr>"
proof (cases "field_readable vconf ''scenetrans_x''")
  case r1: True
  show ?thesis
  proof (cases "field_readable vconf ''scenetrans_y''")
    case r2: True
    show ?thesis
    proof (cases "field_readable vconf ''scenetrans_z''")
      case r3: True
      show ?thesis
      proof (cases "field_readable vconf ''scenerotn_w''")
        case r4: True
        show ?thesis
        proof (cases "field_readable vconf ''scenerotn_x''")
          case r5: True
          show ?thesis
          proof (cases "field_readable vconf ''scenerotn_y''")
            case r6: True
            show ?thesis
            proof (cases "field_readable vconf ''scenerotn_z''")
              case r7: True
              show ?thesis
                using r1 r2 r3 r4 r5 r6 r7
                by (simp add: init_gl_read_config_def readable_prefix_def snapshot_well_formed_def snapshot_fields_def
        read_field_readable read_field_unreadable assign_from_Inr assign_from_Inl)
            next
              case n7: False
              show ?thesis
                using r1 r2 r3 r4 r5 r6 n7
                by (simp add: init_gl_read_config_def readable_prefix_def snapshot_well_formed_def snapshot_fields_def
        read_field_readable read_field_unreadable assign_from_Inr assign_from_Inl)
            qed
          next
            case n6: False
            show ?thesis
              using r1 r2 r3 r4 r5 n6
              by (simp add: init_gl_read_config_def readable_prefix_def snapshot_well_formed_def snapshot_fields_def
        read_field_readable read_field_unreadable assign_from_Inr assign_from_Inl)
          qed
        next
          case n5: False
          show ?thesis
            using r1 r2 r3 r4 n5
            by (simp add: init_gl_read_config_def readable_prefix_def snapshot_well_formed_def snapshot_fields_def
        read_field_readable read_field_unreadable assign_from_Inr assign_from_Inl)
        qed
      next
        case n4: False
        show ?thesis
          using r1 r2 r3 n4
          by (simp add: init_gl_read_config_def readable_prefix_def snapshot_well_formed_def snapshot_fields_def
        read_field_readable read_field_unreadable assign_from_Inr assign_from_Inl)
      qed
    next
      case n3: False
      show ?thesis
        using r1 r2 n3
        by (simp add: init_gl_read_config_def readable_prefix_def snapshot_well_formed_def snapshot_fields_def
        read_field_readable read_field_unreadable assign_from_Inr assign_from_Inl)
    qed
  next
    case n2: False
    show ?thesis
      using r1 n2
      by (simp add: init_gl_read_config_def readable_prefix_def snapshot_well_formed_def snapshot_fields_def
        read_field_readable read_field_unreadable assign_from_Inr assign_from_Inl)
  qed
next
  case n1: False
  show ?thesis
    using n1
    by (simp add: init_gl_read_config_def readable_prefix_def snapshot_well_formed_def snapshot_fields_def
        read_field_readable read_field_unreadable assign_from_Inr assign_from_Inl)
qed

text \<open>
  C6, as amended. Reading the saved transform never raises: the model is a total function
  to the object. If the file is absent or is not JSON text the object is unchanged. A
  field is readable when it is missing or holds a number or a boolean (the library
  converts a boolean to 1 or 0); a string, a null, an array or an object is not. If every
  field that is present is readable, each one overwrites its own component of
  \<open>scenetrans\<close> or \<open>rotation\<close> with its number (1 or 0 for a boolean), a missing field
  leaves its component as it was, and \<open>scenetrans_default\<close> becomes the resulting
  \<open>scenetrans\<close>. In general the block stops at the first field that is present and not
  readable, and keeps what the statements before it assigned: exactly the components of
  the fields of the readable prefix are overwritten, \<open>scenetrans_default\<close> is set only
  when the three \<open>scenetrans\<close> fields were read, and no other member changes.
\<close>

theorem init_gl_read_config_effect:
  "init_gl_read_config None s = s \<and>
   (snapshot_well_formed vconf \<longrightarrow>
      init_gl_read_config (Some vconf) s =
        s\<lparr>scenetrans := \<lparr>v3x = field_or vconf ''scenetrans_x'' (v3x (scenetrans s)),
                          v3y = field_or vconf ''scenetrans_y'' (v3y (scenetrans s)),
                          v3z = field_or vconf ''scenetrans_z'' (v3z (scenetrans s))\<rparr>,
          scenetrans_default := \<lparr>v3x = field_or vconf ''scenetrans_x'' (v3x (scenetrans s)),
                          v3y = field_or vconf ''scenetrans_y'' (v3y (scenetrans s)),
                          v3z = field_or vconf ''scenetrans_z'' (v3z (scenetrans s))\<rparr>,
          rotation := \<lparr>qw = field_or vconf ''scenerotn_w'' (qw (rotation s)),
                        qx = field_or vconf ''scenerotn_x'' (qx (rotation s)),
                        qy = field_or vconf ''scenerotn_y'' (qy (rotation s)),
                        qz = field_or vconf ''scenerotn_z'' (qz (rotation s))\<rparr>\<rparr>) \<and>
   init_gl_read_config (Some vconf) s =
     s\<lparr>scenetrans :=
         \<lparr>v3x = (if ''scenetrans_x'' \<in> set (readable_prefix vconf)
                  then field_or vconf ''scenetrans_x'' (v3x (scenetrans s)) else v3x (scenetrans s)),
          v3y = (if ''scenetrans_y'' \<in> set (readable_prefix vconf)
                  then field_or vconf ''scenetrans_y'' (v3y (scenetrans s)) else v3y (scenetrans s)),
          v3z = (if ''scenetrans_z'' \<in> set (readable_prefix vconf)
                  then field_or vconf ''scenetrans_z'' (v3z (scenetrans s)) else v3z (scenetrans s))\<rparr>,
       scenetrans_default :=
         (if ''scenetrans_z'' \<in> set (readable_prefix vconf)
          then \<lparr>v3x = field_or vconf ''scenetrans_x'' (v3x (scenetrans s)),
                v3y = field_or vconf ''scenetrans_y'' (v3y (scenetrans s)),
                v3z = field_or vconf ''scenetrans_z'' (v3z (scenetrans s))\<rparr>
          else scenetrans_default s),
       rotation :=
         \<lparr>qw = (if ''scenerotn_w'' \<in> set (readable_prefix vconf)
                 then field_or vconf ''scenerotn_w'' (qw (rotation s)) else qw (rotation s)),
          qx = (if ''scenerotn_x'' \<in> set (readable_prefix vconf)
                 then field_or vconf ''scenerotn_x'' (qx (rotation s)) else qx (rotation s)),
          qy = (if ''scenerotn_y'' \<in> set (readable_prefix vconf)
                 then field_or vconf ''scenerotn_y'' (qy (rotation s)) else qy (rotation s)),
          qz = (if ''scenerotn_z'' \<in> set (readable_prefix vconf)
                 then field_or vconf ''scenerotn_z'' (qz (rotation s)) else qz (rotation s))\<rparr>\<rparr> \<and>
   (\<forall>k. field_readable vconf k =
      (case json_find vconf k of
         None \<Rightarrow> True | Some (JNumber r) \<Rightarrow> True | Some (JBool b) \<Rightarrow> True | Some _ \<Rightarrow> False)) \<and>
   (\<forall>k old. field_or vconf k old =
      (case json_find vconf k of
         Some (JNumber r) \<Rightarrow> r | Some (JBool b) \<Rightarrow> (if b then 1 else 0) | _ \<Rightarrow> old))"
proof -
  have readable: "\<forall>k. field_readable vconf k =
      (case json_find vconf k of
         None \<Rightarrow> True | Some (JNumber r) \<Rightarrow> True | Some (JBool b) \<Rightarrow> True | Some _ \<Rightarrow> False)"
    by (simp add: field_readable_def json_get_float_def split: option.splits json.splits)
  have numbers: "\<forall>k old. field_or vconf k old =
      (case json_find vconf k of
         Some (JNumber r) \<Rightarrow> r | Some (JBool b) \<Rightarrow> (if b then 1 else 0) | _ \<Rightarrow> old)"
    by (simp add: field_or_def json_get_float_def split: option.splits json.splits)
  note p = init_gl_read_config_prefix [of s vconf]
  show ?thesis
    by (intro conjI conjunct1 [OF p] conjunct1 [OF conjunct2 [OF p]]
        conjunct2 [OF conjunct2 [OF p]] readable numbers)
qed

theorem init_gl_read_config_effect_witness:
  "snapshot_well_formed (JObject [(''scenetrans_z'', JNumber (- 8)), (''scenerotn_x'', JNumber (1 / 2))]) \<and>
   init_gl_read_config
       (Some (JObject [(''scenetrans_z'', JNumber (- 8)), (''scenerotn_x'', JNumber (1 / 2))]))
       visual_default =
     visual_default\<lparr>scenetrans := \<lparr>v3x = 0, v3y = 0, v3z = - 8\<rparr>,
                    scenetrans_default := \<lparr>v3x = 0, v3y = 0, v3z = - 8\<rparr>,
                    rotation := \<lparr>qw = 1, qx = 1 / 2, qy = 0, qz = 0\<rparr>\<rparr> \<and>
   snapshot_well_formed (JObject [(''scenetrans_x'', JBool True), (''scenetrans_y'', JNumber 3)]) \<and>
   init_gl_read_config
       (Some (JObject [(''scenetrans_x'', JBool True), (''scenetrans_y'', JNumber 3)]))
       visual_default =
     visual_default\<lparr>scenetrans := \<lparr>v3x = 1, v3y = 3, v3z = - 5\<rparr>,
                    scenetrans_default := \<lparr>v3x = 1, v3y = 3, v3z = - 5\<rparr>,
                    rotation := \<lparr>qw = 1, qx = 0, qy = 0, qz = 0\<rparr>\<rparr>"
proof -
  let ?f = "JObject [(''scenetrans_z'', JNumber (- 8)), (''scenerotn_x'', JNumber (1 / 2))]"
  let ?g = "JObject [(''scenetrans_x'', JBool True), (''scenetrans_y'', JNumber 3)]"
  have wf: "snapshot_well_formed ?f"
    by (simp add: snapshot_well_formed_def snapshot_fields_def field_readable_def json_find_def
        json_get_float_def)
  have wg: "snapshot_well_formed ?g"
    by (simp add: snapshot_well_formed_def snapshot_fields_def field_readable_def json_find_def
        json_get_float_def)
  have loaded: "init_gl_read_config (Some j) visual_default =
        visual_default\<lparr>scenetrans := \<lparr>v3x = field_or j ''scenetrans_x'' (v3x (scenetrans visual_default)),
                          v3y = field_or j ''scenetrans_y'' (v3y (scenetrans visual_default)),
                          v3z = field_or j ''scenetrans_z'' (v3z (scenetrans visual_default))\<rparr>,
          scenetrans_default := \<lparr>v3x = field_or j ''scenetrans_x'' (v3x (scenetrans visual_default)),
                          v3y = field_or j ''scenetrans_y'' (v3y (scenetrans visual_default)),
                          v3z = field_or j ''scenetrans_z'' (v3z (scenetrans visual_default))\<rparr>,
          rotation := \<lparr>qw = field_or j ''scenerotn_w'' (qw (rotation visual_default)),
                        qx = field_or j ''scenerotn_x'' (qx (rotation visual_default)),
                        qy = field_or j ''scenerotn_y'' (qy (rotation visual_default)),
                        qz = field_or j ''scenerotn_z'' (qz (rotation visual_default))\<rparr>\<rparr>"
    if "snapshot_well_formed j" for j
    using conjunct1 [OF conjunct2 [OF init_gl_read_config_effect [of visual_default j]]] that
    by (rule mp)
  have a: "init_gl_read_config (Some ?f) visual_default =
     visual_default\<lparr>scenetrans := \<lparr>v3x = 0, v3y = 0, v3z = - 8\<rparr>,
                    scenetrans_default := \<lparr>v3x = 0, v3y = 0, v3z = - 8\<rparr>,
                    rotation := \<lparr>qw = 1, qx = 1 / 2, qy = 0, qz = 0\<rparr>\<rparr>"
    unfolding loaded [OF wf]
    by (simp add: field_or_def json_find_def json_get_float_def visual_default_def
        quaternion_default_def zDefault_def)
  have b: "init_gl_read_config (Some ?g) visual_default =
     visual_default\<lparr>scenetrans := \<lparr>v3x = 1, v3y = 3, v3z = - 5\<rparr>,
                    scenetrans_default := \<lparr>v3x = 1, v3y = 3, v3z = - 5\<rparr>,
                    rotation := \<lparr>qw = 1, qx = 0, qy = 0, qz = 0\<rparr>\<rparr>"
    unfolding loaded [OF wg]
    by (simp add: field_or_def json_find_def json_get_float_def visual_default_def
        quaternion_default_def zDefault_def)
  show ?thesis
    by (intro conjI wf wg a b)
qed

text \<open>
  C6 as stated fails on a file with a malformed field after a good one: with
  \<^verbatim>\<open>{"scenetrans_x": 1, "scenetrans_y": "left"}\<close> the load is silent, but \<open>scenetrans\<close>
  is (1, 0, -5) afterwards, not the (0, 0, -5) of before, and \<open>scenetrans_default\<close> is
  left at (0, 0, -5).
\<close>

theorem snapshot_bad_field_counterexample:
  "\<not> snapshot_well_formed (JObject [(''scenetrans_x'', JNumber 1), (''scenetrans_y'', JString ''left'')]) \<and>
   scenetrans visual_default = \<lparr>v3x = 0, v3y = 0, v3z = - 5\<rparr> \<and>
   scenetrans (init_gl_read_config
       (Some (JObject [(''scenetrans_x'', JNumber 1), (''scenetrans_y'', JString ''left'')]))
       visual_default) = \<lparr>v3x = 1, v3y = 0, v3z = - 5\<rparr> \<and>
   scenetrans_default (init_gl_read_config
       (Some (JObject [(''scenetrans_x'', JNumber 1), (''scenetrans_y'', JString ''left'')]))
       visual_default) = \<lparr>v3x = 0, v3y = 0, v3z = - 5\<rparr>"
  by (simp add: snapshot_well_formed_def snapshot_fields_def field_readable_def json_find_def
      json_get_float_def init_gl_read_config_def read_field_def json_contains_def assign_from_def
      visual_default_def zDefault_def)

end
